theory Spec2Isabelle
  imports Main "HOL-Library.AList"
begin

section \<open>Python values, dictionaries and exceptions\<close>

text \<open>
  The plugin is Python 2 code working on dictionaries of attribute values. A value is one
  of the kinds the plugin inspects; \<open>ATTR_NOT_SPECIFIED\<close> is the sentinel object of
  \<open>quantum.api.v2.attributes\<close> that the source compares with \<open>is\<close>.
\<close>

datatype pyval =
    PNone
  | PBool bool
  | PInt int
  | PStr string
  | PList "pyval list"
  | ATTR_NOT_SPECIFIED

type_synonym pydict = "(string \<times> pyval) list"

text \<open>
  An exception is modelled by its class. \<open>InvalidInput\<close> carries its message; the other
  classes drop their keyword arguments. \<open>OtherException\<close> stands for any other exception a
  collaborator raises, tagged by a text.
\<close>

datatype error =
    AttributeError
  | IndexError
  | KeyError
  | NetworkNotFound
  | InvalidInput string
  | VlanIdInUse
  | NotImplementedError
  | NvpInvalidNovaZone
  | NvpNoMorePortsException
  | NvpPluginException
  | NvpOutOfSyncException
  | OtherException string

text \<open>Truthiness, as \<open>if v:\<close> tests it.\<close>

fun truthy :: "pyval \<Rightarrow> bool" where
  "truthy PNone = False"
| "truthy (PBool b) = b"
| "truthy (PInt i) = (i \<noteq> 0)"
| "truthy (PStr s) = (s \<noteq> [])"
| "truthy (PList xs) = (xs \<noteq> [])"
| "truthy ATTR_NOT_SPECIFIED = True"

text \<open>\<open>v is False\<close>: identity with the singleton \<open>False\<close>.\<close>

fun is_False :: "pyval \<Rightarrow> bool" where
  "is_False (PBool b) = (\<not> b)"
| "is_False _ = False"

text \<open>\<open>k in d\<close>, \<open>d.get(k)\<close> (None when absent), \<open>d[k]\<close> (KeyError when absent).\<close>

definition contains :: "pydict \<Rightarrow> string \<Rightarrow> bool" where
  "contains d k = (map_of d k \<noteq> None)"

definition dict_get :: "pydict \<Rightarrow> string \<Rightarrow> pyval" where
  "dict_get d k = (case map_of d k of None \<Rightarrow> PNone | Some v \<Rightarrow> v)"

definition subscript :: "pydict \<Rightarrow> string \<Rightarrow> error + pyval" where
  "subscript d k = (case map_of d k of None \<Rightarrow> Inl KeyError | Some v \<Rightarrow> Inr v)"

text \<open>\<open>d[k] = v\<close>: replaces the entry of \<open>k\<close>, or adds one.\<close>

fun dict_set :: "string \<Rightarrow> pyval \<Rightarrow> pydict \<Rightarrow> pydict" where
  "dict_set k v [] = [(k, v)]"
| "dict_set k v ((k', v') # d) = (if k' = k then (k, v) # d else (k', v') # dict_set k v d)"

text \<open>\<open>d.update(e)\<close>.\<close>

definition dict_update :: "pydict \<Rightarrow> pydict \<Rightarrow> pydict" where
  "dict_update d e = foldl (\<lambda>acc (k, v). dict_set k v acc) d e"

text \<open>
  The logger is called with a message and its arguments, which are kept apart as the
  source passes them.
\<close>

datatype level = DEBUG | INFO | WARNING | ERROR | EXCEPTION

type_synonym log_record = "level \<times> string \<times> pyval list"

section \<open>Clusters (nvp\_cluster.py)\<close>

text \<open>
  \<open>NVPCluster.add_controller\<close> stores one dictionary per controller with these keys. The
  scalar properties of a cluster read the first controller, and raise IndexError when
  the list is empty.
\<close>

record controller =
  ip :: pyval
  user :: pyval
  password :: pyval
  default_tz_uuid :: pyval
  uuid :: pyval
  zone :: pyval
  port :: int
  request_timeout :: int
  http_timeout :: int
  retries :: int
  redirects :: int

record NVPCluster =
  name :: pyval
  controllers :: "controller list"

definition get_controller :: "NVPCluster \<Rightarrow> nat \<Rightarrow> error + controller" where
  "get_controller c idx =
     (if idx < length (controllers c) then Inr (controllers c ! idx) else Inl IndexError)"

definition NVPCluster_zone :: "NVPCluster \<Rightarrow> error + pyval" where
  "NVPCluster_zone c =
     (case get_controller c 0 of Inl e \<Rightarrow> Inl e | Inr ctl \<Rightarrow> Inr (zone ctl))"

text \<open>
  The plugin keeps its clusters in a dictionary from cluster name to cluster. A variable
  that ranges over that dictionary holds a name (a \<open>str\<close>); one that ranges over its
  values holds a cluster. Both kinds of object reach the same code, so they share a type.
  A \<open>str\<close> has no attribute \<open>zone\<close>.
\<close>

datatype pyobj = Str string | Cluster NVPCluster

fun zone_attr :: "pyobj \<Rightarrow> error + pyval" where
  "zone_attr (Str s) = Inl AttributeError"
| "zone_attr (Cluster c) = NVPCluster_zone c"

section \<open>Backend resources\<close>

text \<open>
  A logical switch as the backend returns it with the relation \<open>LogicalSwitchStatus\<close>:
  \<open>lport_count\<close> and \<open>fabric_status\<close> are the fields of that relation, and a tag is a
  pair of scope and tag.
\<close>

record lswitch =
  ls_uuid :: string
  display_name :: string
  tags :: "(string \<times> string) list"
  fabric_status :: bool
  lport_count :: int

text \<open>A logical port with the relation \<open>LogicalPortStatus\<close>.\<close>

record lport =
  lp_uuid :: string
  lp_tags :: "(string \<times> string) list"
  admin_status_enabled :: bool
  lp_display_name :: string
  fabric_status_up :: bool

section \<open>The plugin object, the request context and the collaborators\<close>

record request_context =
  is_admin :: bool
  tenant_id :: pyval

text \<open>
  The attributes of \<open>self\<close> that the modelled methods read. \<open>novazone_cluster_map\<close> is
  \<open>None\<close> while the attribute has not been assigned: \<open>__init__\<close> assigns \<open>clusters\<close>,
  \<open>default_cluster\<close> and \<open>nvp_opts\<close>, and no statement of the plugin assigns the map.
\<close>

record plugin =
  clusters :: "(string \<times> NVPCluster) list"
  default_cluster :: NVPCluster
  novazone_cluster_map :: "(pyval \<times> pyobj) list option"
  max_lp_per_overlay_ls :: int
  max_lp_per_bridged_ls :: int

record network_binding =
  binding_type :: pyval
  tz_uuid :: pyval
  vlan_id :: pyval

text \<open>A row of the networks table, as \<open>_get_network\<close> returns it.\<close>

record network_row =
  net_id :: pyval
  net_name :: pyval
  net_tenant_id :: pyval

text \<open>
  Everything the plugin imports from the rest of the \<open>quantum\<close> package is outside this
  file and is a parameter of the model: the policy engine, the base plugin
  (\<open>QuantumDbPluginV2\<close>, reached through \<open>super\<close>), the port security mixin, the
  binding table \<open>nicira_db\<close>, the key and status constants, \<open>attributes.is_attr_set\<close>, and
  the builtins \<open>str\<close> and \<open>hashlib.sha1(...).hexdigest()\<close>. The local store has an
  arbitrary type \<open>'d\<close>; an operation that writes returns the new store, one that raises
  returns the exception.
\<close>

type_synonym filters = "(string \<times> string list) list"

record 'd quantum =
  NETWORK_TYPE :: string
  PHYSICAL_NETWORK :: string
  SEGMENTATION_ID :: string
  PORTSECURITY :: string
  NET_STATUS_ACTIVE :: pyval
  NET_STATUS_DOWN :: pyval
  PORT_STATUS_ACTIVE :: pyval
  PORT_STATUS_DOWN :: pyval
  is_attr_set :: "pyval \<Rightarrow> bool"
  py_str :: "pyval \<Rightarrow> string"
  sha1_hexdigest :: "string \<Rightarrow> string"
  policy_check :: "request_context \<Rightarrow> string \<Rightarrow> pydict \<Rightarrow> bool"
  policy_enforce :: "request_context \<Rightarrow> string \<Rightarrow> pydict \<Rightarrow> error option"
  get_network_binding :: "'d \<Rightarrow> pyval \<Rightarrow> network_binding option"
  get_network_binding_by_vlanid :: "'d \<Rightarrow> pyval \<Rightarrow> network_binding option"
  add_network_binding ::
    "'d \<Rightarrow> pyval \<Rightarrow> pyval \<Rightarrow> pyval \<Rightarrow> pyval \<Rightarrow> error + network_binding \<times> 'd"
  get_tenant_id_for_create :: "request_context \<Rightarrow> pydict \<Rightarrow> error + pyval"
  get_network_row :: "request_context \<Rightarrow> pyval \<Rightarrow> 'd \<Rightarrow> error + network_row"
  super_create_network :: "request_context \<Rightarrow> pydict \<Rightarrow> 'd \<Rightarrow> error + pydict \<times> 'd"
  super_delete_network :: "request_context \<Rightarrow> pyval \<Rightarrow> 'd \<Rightarrow> error + 'd"
  super_get_networks :: "request_context \<Rightarrow> filters option \<Rightarrow> 'd \<Rightarrow> error + pydict list"
  super_update_network ::
    "request_context \<Rightarrow> pyval \<Rightarrow> pydict \<Rightarrow> 'd \<Rightarrow> error + pydict \<times> 'd"
  super_get_ports :: "request_context \<Rightarrow> filters option \<Rightarrow> 'd \<Rightarrow> error + pydict list"
  super_create_port :: "request_context \<Rightarrow> pydict \<Rightarrow> 'd \<Rightarrow> error + pydict \<times> 'd"
  process_network_create_port_security :: "request_context \<Rightarrow> pydict \<Rightarrow> 'd \<Rightarrow> error + 'd"
  update_network_security_binding ::
    "request_context \<Rightarrow> pyval \<Rightarrow> pyval \<Rightarrow> 'd \<Rightarrow> error + 'd"
  extend_network_port_security_dict ::
    "request_context \<Rightarrow> pydict \<Rightarrow> 'd \<Rightarrow> error + pydict"
  extend_port_port_security_dict :: "request_context \<Rightarrow> pydict \<Rightarrow> 'd \<Rightarrow> error + pydict"
  determine_port_security_and_has_ip ::
    "request_context \<Rightarrow> pydict \<Rightarrow> 'd \<Rightarrow> error + pyval \<times> pyval"
  process_port_security_create :: "request_context \<Rightarrow> pydict \<Rightarrow> 'd \<Rightarrow> error + 'd"

text \<open>
  The calls into \<open>nvplib\<close>, over a backend of arbitrary type \<open>'b\<close>. A query reads the
  backend; a call that writes returns its outcome and the backend it leaves, also when
  it raises. The cluster argument is whatever object the plugin passes.
  \<open>get_all_query_pages\<close> returns switches or ports according to the path queried.
\<close>

record 'b nvplib =
  get_lswitches :: "'b \<Rightarrow> pyobj \<Rightarrow> pyval \<Rightarrow> error + lswitch list"
  create_lswitch ::
    "'b \<Rightarrow> pyobj \<Rightarrow> pyval \<Rightarrow> pyval \<Rightarrow> pyval \<Rightarrow> pyval \<Rightarrow> pyval \<Rightarrow> pyval
      \<Rightarrow> (error + lswitch) \<times> 'b"
  update_lswitch ::
    "'b \<Rightarrow> pyobj \<Rightarrow> string \<Rightarrow> string \<Rightarrow> pyval \<Rightarrow> (string \<times> string) list
      \<Rightarrow> error option \<times> 'b"
  delete_networks :: "'b \<Rightarrow> pyobj \<Rightarrow> pyval \<Rightarrow> string list \<Rightarrow> error option \<times> 'b"
  get_all_query_pages_lswitch :: "'b \<Rightarrow> string \<Rightarrow> pyobj \<Rightarrow> error + lswitch list"
  get_all_query_pages_lport :: "'b \<Rightarrow> string \<Rightarrow> pyobj \<Rightarrow> error + lport list"
  create_lport :: "'b \<Rightarrow> pyobj \<Rightarrow> string \<Rightarrow> pyval list \<Rightarrow> (error + lport) \<times> 'b"
  plug_interface ::
    "'b \<Rightarrow> pyobj \<Rightarrow> string \<Rightarrow> string \<Rightarrow> string \<Rightarrow> pyval \<Rightarrow> error option \<times> 'b"

text \<open>
  What a method can change: the plugin object, the local store, the backend and the log.
\<close>

record ('d, 'b) world =
  self :: plugin
  db :: 'd
  nvp :: 'b
  LOG :: "log_record list"

definition log_msg :: "level \<Rightarrow> string \<Rightarrow> pyval list \<Rightarrow> ('d, 'b) world \<Rightarrow> ('d, 'b) world" where
  "log_msg lv msg args w = w\<lparr>LOG := LOG w @ [(lv, msg, args)]\<rparr>"

text \<open>
  Modelled from the spec: the transaction scope \<open>with context.session.begin(...)\<close> belongs
  to the local store, which is not in src. The spec gives it guaranteed rollback on any
  failure inside the scope: when the body raises, the store is the one from before the
  scope; the backend, the plugin object and the log keep what the body did.
\<close>

definition session_begin ::
  "(('d, 'b) world \<Rightarrow> (error + 'a) \<times> ('d, 'b) world) \<Rightarrow> ('d, 'b) world
    \<Rightarrow> (error + 'a) \<times> ('d, 'b) world" where
  "session_begin body w =
     (case body w of
        (Inl e, w') \<Rightarrow> (Inl e, w'\<lparr>db := db w\<rparr>)
      | (Inr r, w') \<Rightarrow> (Inr r, w'))"

section \<open>Resolving the target cluster\<close>

text \<open>
  \<^verbatim>\<open>for x in self.clusters:\<close>
  \<^verbatim>\<open>    LOG.debug(... locals())\<close>
  \<^verbatim>\<open>    if x.zone == str(novazone_id):\<close>
  \<^verbatim>\<open>        self.novazone_cluster_map[x.zone] = x\<close>
  \<^verbatim>\<open>        return x\<close>
  \<^verbatim>\<open>LOG.error(...)\<close>
  \<^verbatim>\<open>raise nvp_exc.NvpInvalidNovaZone(nova_zone=novazone_id)\<close>
  The loop over the objects \<open>xs\<close> that the iteration yields, with the map \<open>m\<close> found at
  entry. The log shows a cluster by its name.
\<close>

fun obj_arg :: "pyobj \<Rightarrow> pyval" where
  "obj_arg (Str s) = PStr s"
| "obj_arg (Cluster c) = name c"

fun zone_scan ::
  "'d quantum \<Rightarrow> pyval \<Rightarrow> (pyval \<times> pyobj) list \<Rightarrow> pyobj list \<Rightarrow> ('d, 'b) world
    \<Rightarrow> (error + pyobj) \<times> ('d, 'b) world" where
  "zone_scan q novazone_id m [] w =
     (Inl NvpInvalidNovaZone,
      log_msg ERROR ''Unable to find cluster config entry for nova zone: %s'' [novazone_id] w)"
| "zone_scan q novazone_id m (x # xs) w =
     (let w1 = log_msg DEBUG ''Looking for nova zone %(novazone_id)s in cluster: %(x)s''
                 [novazone_id, obj_arg x] w
      in case zone_attr x of
           Inl e \<Rightarrow> (Inl e, w1)
         | Inr z \<Rightarrow>
            if z = PStr (py_str q novazone_id)
            then (Inr x,
                  w1\<lparr>self := (self w1)\<lparr>novazone_cluster_map :=
                         Some (AList.update z x m)\<rparr>\<rparr>)
            else zone_scan q novazone_id m xs w1)"

text \<open>
  \<open>_novazone_to_cluster\<close>. Reading \<open>self.novazone_cluster_map\<close> raises AttributeError
  while the attribute is unassigned. \<open>self.clusters\<close> is a dictionary, and iterating a
  dictionary yields its keys: the loop variable holds cluster names.
\<close>

definition novazone_to_cluster ::
  "'d quantum \<Rightarrow> pyval \<Rightarrow> ('d, 'b) world \<Rightarrow> (error + pyobj) \<times> ('d, 'b) world" where
  "novazone_to_cluster q novazone_id w =
     (case novazone_cluster_map (self w) of
        None \<Rightarrow> (Inl AttributeError, w)
      | Some m \<Rightarrow>
         (case map_of m novazone_id of
            Some x \<Rightarrow> (Inr x, w)
          | None \<Rightarrow>
             zone_scan q novazone_id m (map (\<lambda>kv. Str (fst kv)) (clusters (self w)))
               (log_msg DEBUG ''Looking for nova zone: %s'' [novazone_id] w)))"

definition find_target_cluster ::
  "'d quantum \<Rightarrow> pydict \<Rightarrow> ('d, 'b) world \<Rightarrow> (error + pyobj) \<times> ('d, 'b) world" where
  "find_target_cluster q resource w =
     (if contains resource ''nova_id''
      then (case subscript resource ''nova_id'' of
              Inl e \<Rightarrow> (Inl e, w)
            | Inr novazone_id \<Rightarrow> novazone_to_cluster q novazone_id w)
      else (Inr (Cluster (default_cluster (self w))), w))"

section \<open>Provider networks\<close>

text \<open>
  Python 2 orders values of different types: \<open>None\<close> is below everything, a number is
  below every value that is not a number, and \<open>True\<close> and \<open>False\<close> are the numbers 1 and 0.
\<close>

fun py_lt_int :: "pyval \<Rightarrow> int \<Rightarrow> bool" where
  "py_lt_int PNone i = True"
| "py_lt_int (PBool b) i = ((if b then 1 else 0) < i)"
| "py_lt_int (PInt n) i = (n < i)"
| "py_lt_int _ i = False"

fun py_gt_int :: "pyval \<Rightarrow> int \<Rightarrow> bool" where
  "py_gt_int PNone i = False"
| "py_gt_int (PBool b) i = ((if b then 1 else 0) > i)"
| "py_gt_int (PInt n) i = (n > i)"
| "py_gt_int _ i = True"

definition provider_network_view :: string where
  "provider_network_view = ''extension:provider_network:view''"

definition provider_network_set :: string where
  "provider_network_set = ''extension:provider_network:set''"

definition port_security_enabled_create :: string where
  "port_security_enabled_create = ''create_port:port_security_enabled''"

text \<open>
  \<open>_handle_provider_create\<close>: \<open>None\<close> when it returns, the exception when it raises. It
  reads the store (the binding of the segmentation id) and writes nothing.
\<close>

definition handle_provider_create ::
  "'d quantum \<Rightarrow> request_context \<Rightarrow> pydict \<Rightarrow> 'd \<Rightarrow> error option" where
  "handle_provider_create q ctx attrs d =
     (let network_type = dict_get attrs (NETWORK_TYPE q);
          physical_network = dict_get attrs (PHYSICAL_NETWORK q);
          segmentation_id = dict_get attrs (SEGMENTATION_ID q);
          network_type_set = is_attr_set q network_type;
          physical_network_set = is_attr_set q physical_network;
          segmentation_id_set = is_attr_set q segmentation_id
      in if \<not> (network_type_set \<or> physical_network_set \<or> segmentation_id_set) then None
         else
          (case policy_enforce q ctx provider_network_set attrs of
             Some e \<Rightarrow> Some e
           | None \<Rightarrow>
              if \<not> network_type_set
              then Some (InvalidInput (NETWORK_TYPE q @ '' required''))
              else if network_type \<in> {PStr ''gre'', PStr ''stt'', PStr ''flat''}
              then (if segmentation_id_set
                    then Some (InvalidInput
                      ''Segmentation ID cannot be specified with flat network type'')
                    else None)
              else if network_type = PStr ''vlan''
              then (if \<not> segmentation_id_set
                    then Some (InvalidInput
                      ''Segmentation ID must be specified with vlan network type'')
                    else if segmentation_id_set \<and>
                            (py_lt_int segmentation_id 1 \<or> py_gt_int segmentation_id 4094)
                    then Some (InvalidInput
                      (py_str q segmentation_id @ '' out of range (1 to 4094)''))
                    else (case get_network_binding_by_vlanid q d segmentation_id of
                            Some binding \<Rightarrow> Some VlanIdInUse
                          | None \<Rightarrow> None))
              else Some (InvalidInput
                     (NETWORK_TYPE q @ '' '' @ py_str q network_type @ '' not supported''))))"

text \<open>
  \<open>_extend_network_dict_provider(context, network, binding=None)\<close>: the dictionary with
  the provider attributes of its binding, when the caller may view them.
\<close>

definition extend_network_dict_provider ::
  "'d quantum \<Rightarrow> request_context \<Rightarrow> pydict \<Rightarrow> network_binding option \<Rightarrow> 'd
    \<Rightarrow> error + pydict" where
  "extend_network_dict_provider q ctx network binding d =
     (if policy_check q ctx provider_network_view network
      then (case (case binding of
                    Some b \<Rightarrow> Inr (Some b)
                  | None \<Rightarrow>
                     (case subscript network ''id'' of
                        Inl e \<Rightarrow> Inl e
                      | Inr nid \<Rightarrow> Inr (get_network_binding q d nid))) of
              Inl e \<Rightarrow> Inl e
            | Inr None \<Rightarrow> Inr network
            | Inr (Some b) \<Rightarrow>
               Inr (dict_set (SEGMENTATION_ID q) (vlan_id b)
                     (dict_set (PHYSICAL_NETWORK q) (tz_uuid b)
                       (dict_set (NETWORK_TYPE q) (binding_type b) network))))
      else Inr network)"

section \<open>Selecting a logical switch\<close>

text \<open>The decimal text of a length, as \<open>%s\<close> formats it.\<close>

fun decimal :: "nat \<Rightarrow> string" where
  "decimal n =
     (if n < 10 then [''0123456789'' ! n]
      else decimal (n div 10) @ [''0123456789'' ! (n mod 10)])"

declare decimal.simps [simp del]

text \<open>
  \<open>_handle_lswitch_selection\<close>. \<open>[...].pop(0)\<close> returns the first switch below
  \<open>max_ports\<close> and raises IndexError, which the method catches, when there is none.
  \<open>main_ls[0]\<close> raises IndexError when no switch has the uuid of the network, and
  \<open>network_binding.binding_type\<close> raises AttributeError when the binding is \<open>None\<close>.
\<close>

definition handle_lswitch_selection ::
  "'d quantum \<Rightarrow> 'b nvplib \<Rightarrow> pyobj \<Rightarrow> network_row \<Rightarrow> network_binding option \<Rightarrow> int \<Rightarrow> bool
    \<Rightarrow> ('d, 'b) world \<Rightarrow> (error + lswitch) \<times> ('d, 'b) world" where
  "handle_lswitch_selection q lib cluster network nb max_ports allow_extra_lswitches w =
     (case get_lswitches lib (nvp w) cluster (net_id network) of
        Inl e \<Rightarrow> (Inl e, w)
      | Inr lswitches \<Rightarrow>
         (case filter (\<lambda>ls. lport_count ls < max_ports) lswitches of
            ls # rest \<Rightarrow> (Inr ls, w)
          | [] \<Rightarrow>
             (let w1 = log_msg DEBUG ''No switch has available ports (%d checked)''
                         [PInt (int (length lswitches))] w
              in if allow_extra_lswitches
                 then
                  (case filter (\<lambda>ls. PStr (ls_uuid ls) = net_id network) lswitches of
                     [] \<Rightarrow> (Inl IndexError, w1)
                   | main_ls # others \<Rightarrow>
                      (case (if map_of (tags main_ls) ''multi_lswitch'' = None
                             then update_lswitch lib (nvp w1) cluster (ls_uuid main_ls)
                                    (display_name main_ls) (net_tenant_id network)
                                    [(''multi_lswitch'', ''True'')]
                             else (None, nvp w1)) of
                         (Some e, b1) \<Rightarrow> (Inl e, w1\<lparr>nvp := b1\<rparr>)
                       | (None, b1) \<Rightarrow>
                          (case nb of
                             None \<Rightarrow> (Inl AttributeError, w1\<lparr>nvp := b1\<rparr>)
                           | Some network_binding \<Rightarrow>
                              (case create_lswitch lib b1 cluster (net_tenant_id network)
                                      (PStr (py_str q (net_name network) @ ''-ext-'' @
                                             decimal (length lswitches)))
                                      (binding_type network_binding)
                                      (tz_uuid network_binding)
                                      (vlan_id network_binding)
                                      (net_id network) of
                                 (Inl e, b2) \<Rightarrow> (Inl e, w1\<lparr>nvp := b2\<rparr>)
                               | (Inr selected_lswitch, b2) \<Rightarrow>
                                  (Inr selected_lswitch, w1\<lparr>nvp := b2\<rparr>)))))
                 else (Inl NvpNoMorePortsException,
                       log_msg ERROR
                         ''Maximum number of logical ports reached for logical network %s''
                         [net_id network] w1))))"

section \<open>create\_network\<close>

text \<open>
  The argument \<open>network\<close> is modelled by its entry \<open>network['network']\<close>.
  \<^verbatim>\<open>for attr, value in network['network'].iteritems():\<close>
  \<^verbatim>\<open>    if value is attributes.ATTR_NOT_SPECIFIED:\<close>
  \<^verbatim>\<open>        net_data[attr] = None\<close>
\<close>

definition replace_not_specified :: "pydict \<Rightarrow> pydict \<Rightarrow> pydict" where
  "replace_not_specified network net_data =
     foldl (\<lambda>acc (attr, v). if v = ATTR_NOT_SPECIFIED then dict_set attr PNone acc else acc)
       net_data network"

text \<open>
  The block under \<open>with context.session.begin(subtransactions=True)\<close>; \<open>network\<close> already
  carries the id.
\<close>

definition create_network_tx ::
  "'d quantum \<Rightarrow> request_context \<Rightarrow> pydict \<Rightarrow> pydict \<Rightarrow> ('d, 'b) world
    \<Rightarrow> (error + pydict) \<times> ('d, 'b) world" where
  "create_network_tx q ctx network net_data =
     session_begin (\<lambda>w.
       case super_create_network q ctx network (db w) of
         Inl e \<Rightarrow> (Inl e, w)
       | Inr (new_net, d1) \<Rightarrow>
          (case process_network_create_port_security q ctx network d1 of
             Inl e \<Rightarrow> (Inl e, w\<lparr>db := d1\<rparr>)
           | Inr d2 \<Rightarrow>
              (case (if truthy (dict_get net_data (NETWORK_TYPE q))
                     then (case subscript new_net ''id'' of
                             Inl e \<Rightarrow> Inl e
                           | Inr nid \<Rightarrow>
                              (case add_network_binding q d2 nid
                                      (dict_get net_data (NETWORK_TYPE q))
                                      (dict_get net_data (PHYSICAL_NETWORK q))
                                      (dict_get net_data (SEGMENTATION_ID q)) of
                                 Inl e \<Rightarrow> Inl e
                               | Inr (net_binding, d3) \<Rightarrow>
                                  (case extend_network_dict_provider q ctx new_net
                                          (Some net_binding) d3 of
                                     Inl e \<Rightarrow> Inl e
                                   | Inr new_net' \<Rightarrow> Inr (new_net', d3))))
                     else Inr (new_net, d2)) of
                 Inl e \<Rightarrow> (Inl e, w\<lparr>db := d2\<rparr>)
               | Inr (new_net1, d4) \<Rightarrow>
                  (case extend_network_port_security_dict q ctx new_net1 d4 of
                     Inl e \<Rightarrow> (Inl e, w\<lparr>db := d4\<rparr>)
                   | Inr new_net2 \<Rightarrow> (Inr new_net2, w\<lparr>db := d4\<rparr>)))))"

text \<open>
  \<^verbatim>\<open>if net_data['admin_state_up'] is False:\<close>
  \<^verbatim>\<open>    LOG.warning(..., net_data.get('name', '<unknown>'))\<close>
\<close>

definition admin_state_warning ::
  "pydict \<Rightarrow> pyval \<Rightarrow> ('d, 'b) world \<Rightarrow> ('d, 'b) world" where
  "admin_state_warning net_data admin_state_up w =
     (if is_False admin_state_up
      then log_msg WARNING
             (''Network with admin_state_up=False are not yet '' @
              ''supported by this plugin. Ignoring setting for '' @
              ''network %s'')
             [if contains net_data ''name'' then dict_get net_data ''name''
              else PStr ''<unknown>''] w
      else w)"

definition create_network ::
  "'d quantum \<Rightarrow> 'b nvplib \<Rightarrow> request_context \<Rightarrow> pydict \<Rightarrow> ('d, 'b) world
    \<Rightarrow> (error + pydict) \<times> ('d, 'b) world" where
  "create_network q lib ctx network w =
     (case handle_provider_create q ctx network (db w) of
        Some e \<Rightarrow> (Inl e, w)
      | None \<Rightarrow>
         (let net_data = replace_not_specified network network
          in case subscript net_data ''admin_state_up'' of
               Inl e \<Rightarrow> (Inl e, w)
             | Inr admin_state_up \<Rightarrow>
                (let w1 = admin_state_warning net_data admin_state_up w
                 in case get_tenant_id_for_create q ctx net_data of
                      Inl e \<Rightarrow> (Inl e, w1)
                    | Inr tenant \<Rightarrow>
                       (case find_target_cluster q net_data w1 of
                          (Inl e, w2) \<Rightarrow> (Inl e, w2)
                        | (Inr target_cluster, w2) \<Rightarrow>
                           (case create_lswitch lib (nvp w2) target_cluster tenant
                                   (dict_get net_data ''name'')
                                   (dict_get net_data (NETWORK_TYPE q))
                                   (dict_get net_data (PHYSICAL_NETWORK q))
                                   (dict_get net_data (SEGMENTATION_ID q))
                                   PNone of
                              (Inl e, b1) \<Rightarrow> (Inl e, w2\<lparr>nvp := b1\<rparr>)
                            | (Inr ls, b1) \<Rightarrow>
                               create_network_tx q ctx
                                 (dict_set ''id'' (PStr (ls_uuid ls)) network) net_data
                                 (w2\<lparr>nvp := b1\<rparr>))))))"

section \<open>delete\_network\<close>

text \<open>
  \<open>_get_lswitch_cluster_pairs\<close>: the loop over \<open>self.clusters.itervalues()\<close> with the
  pairs collected so far. Only \<open>NetworkNotFound\<close> is caught.
\<close>

fun collect_pairs ::
  "'b nvplib \<Rightarrow> 'b \<Rightarrow> pyval \<Rightarrow> pyobj list \<Rightarrow> (pyobj \<times> string list) list
    \<Rightarrow> error + (pyobj \<times> string list) list" where
  "collect_pairs lib b netw_id [] pairs = Inr pairs"
| "collect_pairs lib b netw_id (c # cs) pairs =
     (case get_lswitches lib b c netw_id of
        Inl e \<Rightarrow> if e = NetworkNotFound then collect_pairs lib b netw_id cs pairs else Inl e
      | Inr results \<Rightarrow>
         collect_pairs lib b netw_id cs (pairs @ [(c, map ls_uuid results)]))"

definition cluster_values :: "plugin \<Rightarrow> pyobj list" where
  "cluster_values p = map (\<lambda>kv. Cluster (snd kv)) (clusters p)"

definition get_lswitch_cluster_pairs ::
  "'b nvplib \<Rightarrow> pyval \<Rightarrow> pyval \<Rightarrow> ('d, 'b) world
    \<Rightarrow> (error + (pyobj \<times> string list) list) \<times> ('d, 'b) world" where
  "get_lswitch_cluster_pairs lib netw_id tenant w =
     (case collect_pairs lib (nvp w) netw_id (cluster_values (self w)) [] of
        Inl e \<Rightarrow> (Inl e, w)
      | Inr pairs \<Rightarrow>
         if length pairs = 0 then (Inl NetworkNotFound, w)
         else (Inr pairs,
               log_msg DEBUG ''Returning pairs for network: %s''
                 [PList (map (\<lambda>(c, sw). PList (obj_arg c # map PStr sw)) pairs)] w))"

text \<open>
  \<^verbatim>\<open>for (cluster, switches) in pairs:\<close>
  \<^verbatim>\<open>    nvplib.delete_networks(cluster, id, switches)\<close>
\<close>

fun delete_pairs ::
  "'b nvplib \<Rightarrow> pyval \<Rightarrow> (pyobj \<times> string list) list \<Rightarrow> 'b \<Rightarrow> error option \<times> 'b" where
  "delete_pairs lib nid [] b = (None, b)"
| "delete_pairs lib nid ((cluster, switches) # ps) b =
     (case delete_networks lib b cluster nid switches of
        (Some e, b1) \<Rightarrow> (Some e, b1)
      | (None, b1) \<Rightarrow> delete_pairs lib nid ps b1)"

definition delete_network ::
  "'d quantum \<Rightarrow> 'b nvplib \<Rightarrow> request_context \<Rightarrow> pyval \<Rightarrow> ('d, 'b) world
    \<Rightarrow> (error + unit) \<times> ('d, 'b) world" where
  "delete_network q lib ctx nid w =
     (case super_delete_network q ctx nid (db w) of
        Inl e \<Rightarrow> (Inl e, w)
      | Inr d1 \<Rightarrow>
         (case get_lswitch_cluster_pairs lib nid (tenant_id ctx) (w\<lparr>db := d1\<rparr>) of
            (Inl e, w1) \<Rightarrow> (Inl e, w1)
          | (Inr pairs, w1) \<Rightarrow>
             (case delete_pairs lib nid pairs (nvp w1) of
                (Some e, b1) \<Rightarrow> (Inl e, w1\<lparr>nvp := b1\<rparr>)
              | (None, b1) \<Rightarrow>
                 (Inr (),
                  log_msg DEBUG ''delete_network completed for tenant: %s'' [tenant_id ctx]
                    (w1\<lparr>nvp := b1\<rparr>)))))"

section \<open>get\_networks\<close>

text \<open>
  \<open>filters\<close> defaults to \<open>None\<close>, and \<open>filters.get(k)\<close> on \<open>None\<close> raises AttributeError.
  A filter value is a list of texts; the method only tests it for truth and iterates it,
  so an absent key reads as the empty list.
\<close>

definition filters_get :: "filters option \<Rightarrow> string \<Rightarrow> error + string list" where
  "filters_get filters k =
     (case filters of
        None \<Rightarrow> Inl AttributeError
      | Some f \<Rightarrow> (case map_of f k of None \<Rightarrow> Inr [] | Some vs \<Rightarrow> Inr vs))"

text \<open>The local read under \<open>with\<close>: the records of the base plugin, each extended.\<close>

fun extend_networks ::
  "'d quantum \<Rightarrow> request_context \<Rightarrow> 'd \<Rightarrow> pydict list \<Rightarrow> error + pydict list" where
  "extend_networks q ctx d [] = Inr []"
| "extend_networks q ctx d (net # nets) =
     (case extend_network_dict_provider q ctx net None d of
        Inl e \<Rightarrow> Inl e
      | Inr net1 \<Rightarrow>
         (case extend_network_port_security_dict q ctx net1 d of
            Inl e \<Rightarrow> Inl e
          | Inr net2 \<Rightarrow>
             (case extend_networks q ctx d nets of
                Inl e \<Rightarrow> Inl e
              | Inr nets' \<Rightarrow> Inr (net2 # nets'))))"

definition get_networks_local ::
  "'d quantum \<Rightarrow> request_context \<Rightarrow> filters option \<Rightarrow> 'd \<Rightarrow> error + pydict list" where
  "get_networks_local q ctx filters d =
     (case super_get_networks q ctx filters d of
        Inl e \<Rightarrow> Inl e
      | Inr quantum_lswitches \<Rightarrow> extend_networks q ctx d quantum_lswitches)"

text \<open>
  \<^verbatim>\<open>if context.is_admin and not filters.get("tenant_id"):\<close>
  \<^verbatim>\<open>    tenant_filter = ""\<close>
  \<^verbatim>\<open>elif filters.get("tenant_id"):\<close>
  \<^verbatim>\<open>    tenant_filter = ""\<close>
  \<^verbatim>\<open>    for tenant in filters.get("tenant_id"):\<close>
  \<^verbatim>\<open>        tenant_filter += "&tag=%s&tag_scope=os_tid" % tenant\<close>
  \<^verbatim>\<open>else:\<close>
  \<^verbatim>\<open>    tenant_filter = "&tag=%s&tag_scope=os_tid" % context.tenant_id\<close>
\<close>

definition tenant_filter_elif ::
  "'d quantum \<Rightarrow> request_context \<Rightarrow> filters option \<Rightarrow> error + string" where
  "tenant_filter_elif q ctx filters =
     (case filters_get filters ''tenant_id'' of
        Inl e \<Rightarrow> Inl e
      | Inr tenants \<Rightarrow>
         if tenants \<noteq> []
         then Inr (concat (map (\<lambda>tenant. ''&tag='' @ tenant @ ''&tag_scope=os_tid'') tenants))
         else Inr (''&tag='' @ py_str q (tenant_id ctx) @ ''&tag_scope=os_tid''))"

definition networks_tenant_filter ::
  "'d quantum \<Rightarrow> request_context \<Rightarrow> filters option \<Rightarrow> error + string" where
  "networks_tenant_filter q ctx filters =
     (if is_admin ctx
      then (case filters_get filters ''tenant_id'' of
              Inl e \<Rightarrow> Inl e
            | Inr tenants \<Rightarrow>
               if tenants = [] then Inr [] else tenant_filter_elif q ctx filters)
      else tenant_filter_elif q ctx filters)"

definition lswitch_url_path :: "string \<Rightarrow> string" where
  "lswitch_url_path tenant_filter =
     ''/ws.v1/lswitch?fields='' @ ''uuid,display_name,fabric_status,tags'' @
     ''&relations=LogicalSwitchStatus'' @ tenant_filter"

text \<open>
  \<^verbatim>\<open>for c in self.clusters.itervalues():\<close>
  \<^verbatim>\<open>    res = nvplib.get_all_query_pages(lswitch_url_path, c)\<close>
  \<^verbatim>\<open>    nvp_lswitches.extend(res)\<close>
\<close>

fun query_lswitches ::
  "'b nvplib \<Rightarrow> 'b \<Rightarrow> string \<Rightarrow> pyobj list \<Rightarrow> lswitch list \<Rightarrow> error + lswitch list" where
  "query_lswitches lib b path [] nvp_lswitches = Inr nvp_lswitches"
| "query_lswitches lib b path (c # cs) nvp_lswitches =
     (case get_all_query_pages_lswitch lib b path c of
        Inl e \<Rightarrow> Inl e
      | Inr res \<Rightarrow> query_lswitches lib b path cs (nvp_lswitches @ res))"

text \<open>
  \<^verbatim>\<open>for nvp_lswitch in nvp_lswitches:\<close>
  \<^verbatim>\<open>    for id in filters.get("id"):\<close>
  \<^verbatim>\<open>        if id == nvp_lswitch['uuid']:\<close>
  \<^verbatim>\<open>            filtered_lswitches.append(nvp_lswitch)\<close>
\<close>

definition filter_by_id :: "string list \<Rightarrow> lswitch list \<Rightarrow> lswitch list" where
  "filter_by_id ids nvp_lswitches =
     concat (map (\<lambda>nvp_lswitch.
                    map (\<lambda>i. nvp_lswitch) (filter (\<lambda>i. i = ls_uuid nvp_lswitch) ids))
                 nvp_lswitches)"

text \<open>
  The inner loop of the cross-reference: the first backend switch whose uuid is the id of
  the local record. \<open>quantum_lswitch["id"]\<close> is read once per backend switch.
\<close>

fun match_lswitch :: "pydict \<Rightarrow> lswitch list \<Rightarrow> error + lswitch option" where
  "match_lswitch quantum_lswitch [] = Inr None"
| "match_lswitch quantum_lswitch (nvp_lswitch # rest) =
     (case subscript quantum_lswitch ''id'' of
        Inl e \<Rightarrow> Inl e
      | Inr i \<Rightarrow>
         if PStr (ls_uuid nvp_lswitch) = i then Inr (Some nvp_lswitch)
         else match_lswitch quantum_lswitch rest)"

text \<open>
  The outer loop. A match sets status and name and removes the switch from the list;
  the \<open>else\<close> of the inner \<open>for\<close> raises \<open>NvpOutOfSyncException\<close>.
\<close>

fun cross_reference ::
  "'d quantum \<Rightarrow> pydict list \<Rightarrow> lswitch list \<Rightarrow> error + pydict list \<times> lswitch list" where
  "cross_reference q [] nvp_lswitches = Inr ([], nvp_lswitches)"
| "cross_reference q (quantum_lswitch # qs) nvp_lswitches =
     (case match_lswitch quantum_lswitch nvp_lswitches of
        Inl e \<Rightarrow> Inl e
      | Inr None \<Rightarrow> Inl NvpOutOfSyncException
      | Inr (Some nvp_lswitch) \<Rightarrow>
         (case cross_reference q qs (remove1 nvp_lswitch nvp_lswitches) of
            Inl e \<Rightarrow> Inl e
          | Inr (qs', rest) \<Rightarrow>
             Inr (dict_set ''name'' (PStr (display_name nvp_lswitch))
                    (dict_set ''status''
                       (if fabric_status nvp_lswitch then NET_STATUS_ACTIVE q
                        else NET_STATUS_DOWN q) quantum_lswitch) # qs', rest)))"

text \<open>
  \<^verbatim>\<open>row = {}\<close>
  \<^verbatim>\<open>for field in fields:\<close>
  \<^verbatim>\<open>    row[field] = quantum_lswitch[field]\<close>
\<close>

fun project_row :: "pydict \<Rightarrow> string list \<Rightarrow> pydict \<Rightarrow> error + pydict" where
  "project_row d [] row = Inr row"
| "project_row d (field # flds) row =
     (case subscript d field of
        Inl e \<Rightarrow> Inl e
      | Inr v \<Rightarrow> project_row d flds (dict_set field v row))"

fun project_rows :: "string list \<Rightarrow> pydict list \<Rightarrow> error + pydict list" where
  "project_rows flds [] = Inr []"
| "project_rows flds (d # ds) =
     (case project_row d flds [] of
        Inl e \<Rightarrow> Inl e
      | Inr row \<Rightarrow>
         (case project_rows flds ds of Inl e \<Rightarrow> Inl e | Inr rows \<Rightarrow> Inr (row # rows)))"

definition select_fields :: "string list option \<Rightarrow> pydict list \<Rightarrow> error + pydict list" where
  "select_fields flds ds =
     (case flds of
        None \<Rightarrow> Inr ds
      | Some fs \<Rightarrow> if fs = [] then Inr ds else project_rows fs ds)"

definition networks_drift_warning :: string where
  "networks_drift_warning =
     ''Found %s logical switches not bound '' @
     ''to Quantum networks. Quantum and NVP are '' @
     ''potentially out of sync''"

definition get_networks ::
  "'d quantum \<Rightarrow> 'b nvplib \<Rightarrow> request_context \<Rightarrow> filters option \<Rightarrow> string list option
    \<Rightarrow> ('d, 'b) world \<Rightarrow> (error + pydict list) \<times> ('d, 'b) world" where
  "get_networks q lib ctx filters flds w =
     (case get_networks_local q ctx filters (db w) of
        Inl e \<Rightarrow> (Inl e, w)
      | Inr quantum_lswitches \<Rightarrow>
     (case networks_tenant_filter q ctx filters of
        Inl e \<Rightarrow> (Inl e, w)
      | Inr tenant_filter \<Rightarrow>
     (case query_lswitches lib (nvp w) (lswitch_url_path tenant_filter)
             (cluster_values (self w)) [] of
        Inl e \<Rightarrow>
          (Inl NvpPluginException, log_msg EXCEPTION ''Unable to get logical switches'' [] w)
      | Inr nvp_lswitches \<Rightarrow>
     (case filters_get filters ''id'' of
        Inl e \<Rightarrow> (Inl e, w)
      | Inr ids \<Rightarrow>
     (case cross_reference q quantum_lswitches
             (if ids \<noteq> [] then filter_by_id ids nvp_lswitches else nvp_lswitches) of
        Inl e \<Rightarrow> (Inl e, w)
      | Inr (quantum_lswitches', unbound) \<Rightarrow>
         (let w1 = (if length unbound \<noteq> 0
                    then log_msg WARNING networks_drift_warning
                           [PInt (int (length unbound))] w
                    else w);
              w2 = log_msg DEBUG ''get_networks() completed for tenant %s''
                     [tenant_id ctx] w1
          in case select_fields flds quantum_lswitches' of
               Inl e \<Rightarrow> (Inl e, w2)
             | Inr r \<Rightarrow> (Inr r, w2)))))))"

section \<open>get\_ports\<close>

fun extend_ports ::
  "'d quantum \<Rightarrow> request_context \<Rightarrow> 'd \<Rightarrow> pydict list \<Rightarrow> error + pydict list" where
  "extend_ports q ctx d [] = Inr []"
| "extend_ports q ctx d (quantum_lport # ps) =
     (case extend_port_port_security_dict q ctx quantum_lport d of
        Inl e \<Rightarrow> Inl e
      | Inr p1 \<Rightarrow>
         (case extend_ports q ctx d ps of Inl e \<Rightarrow> Inl e | Inr ps' \<Rightarrow> Inr (p1 # ps')))"

definition get_ports_local ::
  "'d quantum \<Rightarrow> request_context \<Rightarrow> filters option \<Rightarrow> 'd \<Rightarrow> error + pydict list" where
  "get_ports_local q ctx filters d =
     (case super_get_ports q ctx filters d of
        Inl e \<Rightarrow> Inl e
      | Inr quantum_lports \<Rightarrow> extend_ports q ctx d quantum_lports)"

text \<open>
  The path of the port query: the switch is the first \<open>network_id\<close> of the filters or
  \<open>*\<close>, and every \<open>device_id\<close> and \<open>tenant_id\<close> adds a tag to the query.
\<close>

definition lport_query_path ::
  "'d quantum \<Rightarrow> string list \<Rightarrow> string list \<Rightarrow> string list \<Rightarrow> string" where
  "lport_query_path q network_ids device_ids tenant_ids =
     (let lswitch = (case network_ids of [] \<Rightarrow> ''*'' | n # ns \<Rightarrow> n);
          vm_filter = foldl (\<lambda>vm_filter vm_id.
                        vm_filter @ ''tag_scope=vm_id&tag='' @ sha1_hexdigest q vm_id @ ''&'')
                        [] device_ids;
          tenant_filter = foldl (\<lambda>tenant_filter tenant.
                        tenant_filter @ ''tag_scope=os_tid&tag='' @ tenant @ ''&'')
                        [] tenant_ids
      in ''/ws.v1/lswitch/'' @ lswitch @ ''/lport?fields='' @
         ''tags,admin_status_enabled,display_name,fabric_status_up'' @ ''&'' @
         vm_filter @ tenant_filter @ ''tag_scope=q_port_id'' @
         ''&relations=LogicalPortStatus'')"

text \<open>
  \<^verbatim>\<open>for port in ports:\<close>
  \<^verbatim>\<open>    for tag in port["tags"]:\<close>
  \<^verbatim>\<open>        if tag["scope"] == "q_port_id":\<close>
  \<^verbatim>\<open>            nvp_lports[tag["tag"]] = port\<close>
  The dictionary \<open>nvp_lports\<close> is a list of entries without repeated keys.
\<close>

definition index_port :: "(pyval \<times> lport) list \<Rightarrow> lport \<Rightarrow> (pyval \<times> lport) list" where
  "index_port nvp_lports p =
     foldl (\<lambda>acc (scope, tag). if scope = ''q_port_id'' then AList.update (PStr tag) p acc
                                else acc)
       nvp_lports (lp_tags p)"

fun query_lports ::
  "'b nvplib \<Rightarrow> 'b \<Rightarrow> string \<Rightarrow> pyobj list \<Rightarrow> (pyval \<times> lport) list
    \<Rightarrow> error + (pyval \<times> lport) list" where
  "query_lports lib b path [] nvp_lports = Inr nvp_lports"
| "query_lports lib b path (c # cs) nvp_lports =
     (case get_all_query_pages_lport lib b path c of
        Inl e \<Rightarrow> Inl e
      | Inr ports \<Rightarrow> query_lports lib b path cs (foldl index_port nvp_lports ports))"

text \<open>
  The projection loop. A local port whose id is a key of \<open>nvp_lports\<close> takes the
  backend's admin state, name and status, leaves the dictionary and joins the result; for
  any other the \<open>KeyError\<close> is caught and logged. The handler reads
  \<open>quantum_lport['id']\<close> itself, so a record without an id raises from the handler.
\<close>

fun project_ports ::
  "'d quantum \<Rightarrow> pydict list \<Rightarrow> (pyval \<times> lport) list \<Rightarrow> log_record list
    \<Rightarrow> error + pydict list \<times> (pyval \<times> lport) list \<times> log_record list" where
  "project_ports q [] nvp_lports lg = Inr ([], nvp_lports, lg)"
| "project_ports q (quantum_lport # ps) nvp_lports lg =
     (case subscript quantum_lport ''id'' of
        Inl e \<Rightarrow> Inl e
      | Inr pid \<Rightarrow>
         (case map_of nvp_lports pid of
            None \<Rightarrow>
              project_ports q ps nvp_lports
                (lg @ [(DEBUG, ''Quantum logical port %s was not found on NVP'', [pid])])
          | Some lp \<Rightarrow>
             (case project_ports q ps (AList.delete pid nvp_lports) lg of
                Inl e \<Rightarrow> Inl e
              | Inr (lports, rest, lg') \<Rightarrow>
                 Inr (dict_set ''status''
                        (if fabric_status_up lp then PORT_STATUS_ACTIVE q
                         else PORT_STATUS_DOWN q)
                        (dict_set ''name'' (PStr (lp_display_name lp))
                          (dict_set ''admin_state_up'' (PBool (admin_status_enabled lp))
                             quantum_lport)) # lports, rest, lg'))))"

definition ports_drift_warning :: string where
  "ports_drift_warning =
     ''Found %s logical ports not bound '' @
     ''to Quantum ports. Quantum and NVP are '' @
     ''potentially out of sync''"

definition get_ports ::
  "'d quantum \<Rightarrow> 'b nvplib \<Rightarrow> request_context \<Rightarrow> filters option \<Rightarrow> string list option
    \<Rightarrow> ('d, 'b) world \<Rightarrow> (error + pydict list) \<times> ('d, 'b) world" where
  "get_ports q lib ctx filters flds w =
     (case get_ports_local q ctx filters (db w) of
        Inl e \<Rightarrow> (Inl e, w)
      | Inr quantum_lports \<Rightarrow>
     (case filters_get filters ''network_id'' of
        Inl e \<Rightarrow> (Inl e, w)
      | Inr network_ids \<Rightarrow>
     (case filters_get filters ''device_id'' of
        Inl e \<Rightarrow> (Inl e, w)
      | Inr device_ids \<Rightarrow>
     (case filters_get filters ''tenant_id'' of
        Inl e \<Rightarrow> (Inl e, w)
      | Inr tenant_ids \<Rightarrow>
     (case query_lports lib (nvp w) (lport_query_path q network_ids device_ids tenant_ids)
             (cluster_values (self w)) [] of
        Inl e \<Rightarrow> (Inl NvpPluginException, log_msg EXCEPTION ''Unable to get ports'' [] w)
      | Inr nvp_lports \<Rightarrow>
     (case project_ports q quantum_lports nvp_lports (LOG w) of
        Inl e \<Rightarrow> (Inl e, w)
      | Inr (lports, unbound, lg) \<Rightarrow>
         (let w1 = w\<lparr>LOG := lg\<rparr>;
              w2 = (if length unbound \<noteq> 0
                    then log_msg WARNING ports_drift_warning [PInt (int (length unbound))] w1
                    else w1)
          in case select_fields flds lports of
               Inl e \<Rightarrow> (Inl e, w2)
             | Inr r \<Rightarrow> (Inr r, w2))))))))"

section \<open>create\_port\<close>

text \<open>\<open>d[k]\<close> for each key of a list, in order.\<close>

fun subscripts :: "pydict \<Rightarrow> string list \<Rightarrow> error + pyval list" where
  "subscripts d [] = Inr []"
| "subscripts d (k # ks) =
     (case subscript d k of
        Inl e \<Rightarrow> Inl e
      | Inr v \<Rightarrow> (case subscripts d ks of Inl e \<Rightarrow> Inl e | Inr vs \<Rightarrow> Inr (v # vs)))"

text \<open>
  The body of the \<open>try\<close>: resolve the cluster, select the switch, create the backend
  port with the attributes of \<open>port_data\<close>, and plug the interface.
\<close>

definition create_port_nvp ::
  "'d quantum \<Rightarrow> 'b nvplib \<Rightarrow> pydict \<Rightarrow> network_row \<Rightarrow> network_binding option \<Rightarrow> int \<Rightarrow> bool
    \<Rightarrow> ('d, 'b) world \<Rightarrow> (error + unit) \<times> ('d, 'b) world" where
  "create_port_nvp q lib port_data network nb max_ports allow_extra_lswitches w =
     (case subscript port_data ''network_id'' of
        Inl e \<Rightarrow> (Inl e, w)
      | Inr q_net_id \<Rightarrow>
     (case find_target_cluster q port_data w of
        (Inl e, w1) \<Rightarrow> (Inl e, w1)
      | (Inr cluster, w1) \<Rightarrow>
     (case handle_lswitch_selection q lib cluster network nb max_ports
             allow_extra_lswitches w1 of
        (Inl e, w2) \<Rightarrow> (Inl e, w2)
      | (Inr selected_lswitch, w2) \<Rightarrow>
     (case subscripts port_data
             [''tenant_id'', ''id'', ''name'', ''device_id'', ''admin_state_up'',
              ''mac_address'', ''fixed_ips'', PORTSECURITY q] of
        Inl e \<Rightarrow> (Inl e, w2)
      | Inr args \<Rightarrow>
     (case create_lport lib (nvp w2) cluster (ls_uuid selected_lswitch) args of
        (Inl e, b1) \<Rightarrow> (Inl e, w2\<lparr>nvp := b1\<rparr>)
      | (Inr lp, b1) \<Rightarrow>
     (case subscript port_data ''id'' of
        Inl e \<Rightarrow> (Inl e, w2\<lparr>nvp := b1\<rparr>)
      | Inr pid \<Rightarrow>
     (case plug_interface lib b1 cluster (ls_uuid selected_lswitch) (lp_uuid lp)
             ''VifAttachment'' pid of
        (Some e, b2) \<Rightarrow> (Inl e, w2\<lparr>nvp := b2\<rparr>)
      | (None, b2) \<Rightarrow> (Inr (), w2\<lparr>nvp := b2\<rparr>))))))))"

text \<open>
  The \<open>try\<close> with its handlers: \<open>NvpNoMorePortsException\<close> is logged and raised again as
  it is; any other exception is replaced by \<open>NvpPluginException\<close>. Each handler reads
  \<open>port_data\<close> for its message.
\<close>

definition create_port_try ::
  "'d quantum \<Rightarrow> 'b nvplib \<Rightarrow> pydict \<Rightarrow> network_row \<Rightarrow> network_binding option \<Rightarrow> int \<Rightarrow> bool
    \<Rightarrow> ('d, 'b) world \<Rightarrow> (error + unit) \<times> ('d, 'b) world" where
  "create_port_try q lib port_data network nb max_ports allow_extra_lswitches w =
     (case create_port_nvp q lib port_data network nb max_ports allow_extra_lswitches w of
        (Inr u, w') \<Rightarrow> (Inr u, w')
      | (Inl e, w') \<Rightarrow>
         if e = NvpNoMorePortsException
         then (case subscript port_data ''network_id'' of
                 Inl e' \<Rightarrow> (Inl e', w')
               | Inr n \<Rightarrow>
                  (Inl e,
                   log_msg ERROR ''Number of available ports for network %s exhausted'' [n] w'))
         else (case subscript port_data ''id'' of
                 Inl e' \<Rightarrow> (Inl e', w')
               | Inr pid \<Rightarrow>
                  (Inl NvpPluginException,
                   log_msg EXCEPTION
                     (''An exception occured while plugging the interface'' @
                      '' in NVP for port '' @ py_str q pid) [] w')))"

text \<open>
  The block under \<open>with\<close>. The argument \<open>port\<close> is modelled by its entry
  \<open>port['port']\<close>, which \<open>port_data\<close> aliases.
\<close>

definition create_port_tx ::
  "'d quantum \<Rightarrow> 'b nvplib \<Rightarrow> request_context \<Rightarrow> pydict \<Rightarrow> ('d, 'b) world
    \<Rightarrow> (error + pydict) \<times> ('d, 'b) world" where
  "create_port_tx q lib ctx port_req =
     session_begin (\<lambda>w.
       case super_create_port q ctx port_req (db w) of
         Inl e \<Rightarrow> (Inl e, w)
       | Inr (quantum_db, d1) \<Rightarrow>
      (let port_data0 = dict_update port_req quantum_db; w1 = w\<lparr>db := d1\<rparr>
       in case determine_port_security_and_has_ip q ctx port_data0 d1 of
            Inl e \<Rightarrow> (Inl e, w1)
          | Inr (port_security, has_ip) \<Rightarrow>
      (let port_data = dict_set (PORTSECURITY q) port_security port_data0
       in case process_port_security_create q ctx port_data d1 of
            Inl e \<Rightarrow> (Inl e, w1)
          | Inr d2 \<Rightarrow>
      (let w2 = w\<lparr>db := d2\<rparr>
       in case subscript port_data ''network_id'' of
            Inl e \<Rightarrow> (Inl e, w2)
          | Inr network_id \<Rightarrow>
      (case get_network_row q ctx network_id d2 of
         Inl e \<Rightarrow> (Inl e, w2)
       | Inr network \<Rightarrow>
      (let nb = get_network_binding q d2 network_id;
           bridged = (case nb of
                        None \<Rightarrow> False
                      | Some b \<Rightarrow> binding_type b \<in> {PStr ''flat'', PStr ''vlan''});
           max_ports = (if bridged then max_lp_per_bridged_ls (self w2)
                        else max_lp_per_overlay_ls (self w2))
       in case create_port_try q lib port_data network nb max_ports bridged w2 of
            (Inl e, w3) \<Rightarrow> (Inl e, w3)
          | (Inr u, w3) \<Rightarrow>
             (let w4 = log_msg DEBUG
                         ''create_port completed on NVP for tenant %(tenant_id)s: (%(id)s)''
                         [dict_get port_data ''tenant_id'', dict_get port_data ''id''] w3
              in case extend_port_port_security_dict q ctx port_data (db w4) of
                   Inl e \<Rightarrow> (Inl e, w4)
                 | Inr port_data' \<Rightarrow> (Inr port_data', w4))))))))"

definition create_port ::
  "'d quantum \<Rightarrow> 'b nvplib \<Rightarrow> request_context \<Rightarrow> pydict \<Rightarrow> ('d, 'b) world
    \<Rightarrow> (error + pydict) \<times> ('d, 'b) world" where
  "create_port q lib ctx port_req w =
     (if is_attr_set q (dict_get port_req (PORTSECURITY q))
      then (case policy_enforce q ctx port_security_enabled_create port_req of
              Some e \<Rightarrow> (Inl e, w)
            | None \<Rightarrow> create_port_tx q lib ctx port_req w)
      else create_port_tx q lib ctx port_req w)"

section \<open>update\_network\<close>

text \<open>
  The argument \<open>network\<close> is modelled by its entry \<open>network['network']\<close>, the attributes
  of the request. The block under \<open>with\<close> updates the record through the base plugin,
  updates the port security binding when the request names it, and extends the result.
\<close>

definition update_network_tx ::
  "'d quantum \<Rightarrow> request_context \<Rightarrow> pyval \<Rightarrow> pydict \<Rightarrow> ('d, 'b) world
    \<Rightarrow> (error + pydict) \<times> ('d, 'b) world" where
  "update_network_tx q ctx nid network =
     session_begin (\<lambda>w.
       case super_update_network q ctx nid network (db w) of
         Inl e \<Rightarrow> (Inl e, w)
       | Inr (quantum_db, d1) \<Rightarrow>
          (case (if contains network (PORTSECURITY q)
                 then (case subscript network (PORTSECURITY q) of
                         Inl e \<Rightarrow> Inl e
                       | Inr v \<Rightarrow> update_network_security_binding q ctx nid v d1)
                 else Inr d1) of
             Inl e \<Rightarrow> (Inl e, w\<lparr>db := d1\<rparr>)
           | Inr d2 \<Rightarrow>
              (case extend_network_port_security_dict q ctx quantum_db d2 of
                 Inl e \<Rightarrow> (Inl e, w\<lparr>db := d2\<rparr>)
               | Inr quantum_db' \<Rightarrow> (Inr quantum_db', w\<lparr>db := d2\<rparr>))))"

text \<open>
  \<^verbatim>\<open>if network["network"].get("admin_state_up"):\<close>
  \<^verbatim>\<open>    if network['network']["admin_state_up"] is False:\<close>
  \<^verbatim>\<open>        raise q_exc.NotImplementedError(...)\<close>
\<close>

definition update_network ::
  "'d quantum \<Rightarrow> request_context \<Rightarrow> pyval \<Rightarrow> pydict \<Rightarrow> ('d, 'b) world
    \<Rightarrow> (error + pydict) \<times> ('d, 'b) world" where
  "update_network q ctx nid network w =
     (if truthy (dict_get network ''admin_state_up'')
      then (case subscript network ''admin_state_up'' of
              Inl e \<Rightarrow> (Inl e, w)
            | Inr v \<Rightarrow>
               if is_False v then (Inl NotImplementedError, w)
               else update_network_tx q ctx nid network w)
      else update_network_tx q ctx nid network w)"

section \<open>Reference collaborators\<close>

text \<open>
  The theorems below hold for every local store and every backend. To run the methods on
  concrete inputs, this section gives one store and one backend, written from the
  interfaces the specification lists for them.
\<close>

text \<open>
  The builtin \<open>str\<close> on the values whose text does not depend on the interpreter;
  any other object is shown as \<open><object>\<close>.
\<close>

fun ref_str :: "pyval \<Rightarrow> string" where
  "ref_str (PStr s) = s"
| "ref_str PNone = ''None''"
| "ref_str (PBool b) = (if b then ''True'' else ''False'')"
| "ref_str (PInt i) = (if i < 0 then ''-'' @ decimal (nat (- i)) else decimal (nat i))"
| "ref_str _ = ''<object>''"

text \<open>
  Modelled from the spec: the local record store (section 6: transactional CRUD for
  networks and ports with their provider-binding side table, bulk reads by
  field-equality filters), which is not in src. Records are kept in creation order.
\<close>

record store =
  networks :: "pydict list"
  bindings :: "(pyval \<times> network_binding) list"
  ports :: "pydict list"

text \<open>Modelled from the spec: a record passes the filters when each filtered field has
  one of the listed values.\<close>

definition ref_matches :: "filters option \<Rightarrow> pydict \<Rightarrow> bool" where
  "ref_matches filters r =
     (case filters of
        None \<Rightarrow> True
      | Some f \<Rightarrow> list_all (\<lambda>(k, vs). vs = [] \<or> dict_get r k \<in> set (map PStr vs)) f)"

text \<open>Modelled from the spec: the base plugin's \<open>create_network\<close> stores the request as
  the new record, under the id the request carries.\<close>

definition ref_create_network ::
  "request_context \<Rightarrow> pydict \<Rightarrow> store \<Rightarrow> error + pydict \<times> store" where
  "ref_create_network ctx network d = Inr (network, d\<lparr>networks := networks d @ [network]\<rparr>)"

text \<open>Modelled from the spec: the base plugin's \<open>delete_network\<close> removes the record of
  that id, and raises \<open>NetworkNotFound\<close> when there is none.\<close>

definition ref_delete_network :: "request_context \<Rightarrow> pyval \<Rightarrow> store \<Rightarrow> error + store" where
  "ref_delete_network ctx nid d =
     (if nid \<in> set (map (\<lambda>n. dict_get n ''id'') (networks d))
      then Inr (d\<lparr>networks := filter (\<lambda>n. dict_get n ''id'' \<noteq> nid) (networks d)\<rparr>)
      else Inl NetworkNotFound)"

text \<open>Modelled from the spec: the base plugin's \<open>update_network\<close> writes the attributes
  of the request into the record of that id.\<close>

definition ref_update_network ::
  "request_context \<Rightarrow> pyval \<Rightarrow> pydict \<Rightarrow> store \<Rightarrow> error + pydict \<times> store" where
  "ref_update_network ctx nid network d =
     (case find (\<lambda>n. dict_get n ''id'' = nid) (networks d) of
        None \<Rightarrow> Inl NetworkNotFound
      | Some n \<Rightarrow>
         Inr (dict_update n network,
              d\<lparr>networks := map (\<lambda>r. if dict_get r ''id'' = nid then dict_update r network
                                      else r) (networks d)\<rparr>))"

text \<open>Modelled from the spec: the row of a network, or \<open>NetworkNotFound\<close>.\<close>

definition ref_get_network_row ::
  "request_context \<Rightarrow> pyval \<Rightarrow> store \<Rightarrow> error + network_row" where
  "ref_get_network_row ctx nid d =
     (case find (\<lambda>n. dict_get n ''id'' = nid) (networks d) of
        None \<Rightarrow> Inl NetworkNotFound
      | Some n \<Rightarrow>
         Inr \<lparr>net_id = nid, net_name = dict_get n ''name'',
              net_tenant_id = dict_get n ''tenant_id''\<rparr>)"

text \<open>Modelled from the spec: the base plugin's \<open>create_port\<close> assigns the id of the new
  port locally and stores the record.\<close>

definition ref_create_port ::
  "request_context \<Rightarrow> pydict \<Rightarrow> store \<Rightarrow> error + pydict \<times> store" where
  "ref_create_port ctx p d =
     (let r = dict_set ''id'' (PStr (''port-'' @ decimal (length (ports d)))) p
      in Inr (r, d\<lparr>ports := ports d @ [r]\<rparr>))"

text \<open>Modelled from the spec: the binding table \<open>nicira_db\<close>: one binding per network
  id, found by network id or by segmentation id.\<close>

definition ref_add_network_binding ::
  "store \<Rightarrow> pyval \<Rightarrow> pyval \<Rightarrow> pyval \<Rightarrow> pyval \<Rightarrow> error + network_binding \<times> store" where
  "ref_add_network_binding d nid t p sid =
     (let b = \<lparr>binding_type = t, tz_uuid = p, vlan_id = sid\<rparr>
      in Inr (b, d\<lparr>bindings := bindings d @ [(nid, b)]\<rparr>))"

text \<open>Modelled from the spec: the collaborators of the plugin over this store. The
  policy engine allows everything, the port security side table is left out (its
  operations do nothing), and the digest is a stand-in that keeps the text.\<close>

definition ref_quantum :: "store quantum" where
  "ref_quantum =
     \<lparr>NETWORK_TYPE = ''provider:network_type'',
      PHYSICAL_NETWORK = ''provider:physical_network'',
      SEGMENTATION_ID = ''provider:segmentation_id'',
      PORTSECURITY = ''port_security_enabled'',
      NET_STATUS_ACTIVE = PStr ''ACTIVE'',
      NET_STATUS_DOWN = PStr ''DOWN'',
      PORT_STATUS_ACTIVE = PStr ''ACTIVE'',
      PORT_STATUS_DOWN = PStr ''DOWN'',
      is_attr_set = (\<lambda>v. \<not> (v = PNone \<or> v = ATTR_NOT_SPECIFIED)),
      py_str = ref_str,
      sha1_hexdigest = (\<lambda>t. ''sha1:'' @ t),
      policy_check = (\<lambda>ctx action resource. True),
      policy_enforce = (\<lambda>ctx action resource. None),
      get_network_binding = (\<lambda>d nid. map_of (bindings d) nid),
      get_network_binding_by_vlanid =
        (\<lambda>d sid. find (\<lambda>b. vlan_id b = sid) (map snd (bindings d))),
      add_network_binding = ref_add_network_binding,
      get_tenant_id_for_create = (\<lambda>ctx resource. Inr (tenant_id ctx)),
      get_network_row = ref_get_network_row,
      super_create_network = ref_create_network,
      super_delete_network = ref_delete_network,
      super_get_networks = (\<lambda>ctx filters d. Inr (filter (ref_matches filters) (networks d))),
      super_update_network = ref_update_network,
      super_get_ports = (\<lambda>ctx filters d. Inr (filter (ref_matches filters) (ports d))),
      super_create_port = ref_create_port,
      process_network_create_port_security = (\<lambda>ctx network d. Inr d),
      update_network_security_binding = (\<lambda>ctx nid v d. Inr d),
      extend_network_port_security_dict = (\<lambda>ctx network d. Inr network),
      extend_port_port_security_dict = (\<lambda>ctx p d. Inr p),
      determine_port_security_and_has_ip =
        (\<lambda>ctx p d. Inr (dict_get p ''port_security_enabled'', PBool False)),
      process_port_security_create = (\<lambda>ctx p d. Inr d)\<rparr>"

text \<open>
  Modelled from the spec: the backend (section 6: query, create, update, delete, attach),
  which is reached through \<open>nvplib\<close> and is not in src. It holds the switches and the
  ports of each cluster, by cluster name.
\<close>

record backend =
  switches :: "(pyval \<times> lswitch) list"
  lports :: "(pyval \<times> lport) list"

text \<open>Modelled from the spec: the switches of a cluster that belong to a network: the
  one whose uuid is the network id and those tagged with it. None at all is
  \<open>NetworkNotFound\<close>, the exception the plugin catches. An object that is not a cluster
  has no client to query.\<close>

definition ref_get_lswitches :: "backend \<Rightarrow> pyobj \<Rightarrow> pyval \<Rightarrow> error + lswitch list" where
  "ref_get_lswitches b c nid =
     (case c of
        Str s \<Rightarrow> Inl AttributeError
      | Cluster cl \<Rightarrow>
         (let r = map snd (filter (\<lambda>(n, ls). n = name cl \<and>
                     (PStr (ls_uuid ls) = nid \<or>
                      PStr (case map_of (tags ls) ''quantum_net_id'' of
                              None \<Rightarrow> [] | Some t \<Rightarrow> t) = nid)) (switches b))
          in if r = [] then Inl NetworkNotFound else Inr r))"

text \<open>Modelled from the spec: the backend assigns the uuid of a new switch; the switch
  starts with no port and its fabric up, and carries the network id as a tag when it is
  an extra switch of a network.\<close>

definition ref_create_lswitch ::
  "backend \<Rightarrow> pyobj \<Rightarrow> pyval \<Rightarrow> pyval \<Rightarrow> pyval \<Rightarrow> pyval \<Rightarrow> pyval \<Rightarrow> pyval
    \<Rightarrow> (error + lswitch) \<times> backend" where
  "ref_create_lswitch b c tenant nm t p sid quantum_net_id =
     (case c of
        Str s \<Rightarrow> (Inl AttributeError, b)
      | Cluster cl \<Rightarrow>
         (let ls = \<lparr>ls_uuid = ''ls-'' @ decimal (length (switches b)),
                    display_name = ref_str nm,
                    tags = (if quantum_net_id = PNone then []
                            else [(''quantum_net_id'', ref_str quantum_net_id)]),
                    fabric_status = True,
                    lport_count = 0\<rparr>
          in (Inr ls, b\<lparr>switches := switches b @ [(name cl, ls)]\<rparr>)))"

text \<open>Modelled from the spec: update adds the tags to the switch of that uuid; delete
  removes the listed switches; a query returns the resources of the cluster; creating a
  port tags it with the local port id and counts it on its switch; attaching changes
  nothing that is observed here.\<close>

definition ref_update_lswitch ::
  "backend \<Rightarrow> pyobj \<Rightarrow> string \<Rightarrow> string \<Rightarrow> pyval \<Rightarrow> (string \<times> string) list
    \<Rightarrow> error option \<times> backend" where
  "ref_update_lswitch b c u dn tenant tgs =
     (None, b\<lparr>switches := map (\<lambda>(n, ls). if ls_uuid ls = u
                                 then (n, ls\<lparr>display_name := dn, tags := tags ls @ tgs\<rparr>)
                                 else (n, ls)) (switches b)\<rparr>)"

definition ref_delete_networks ::
  "backend \<Rightarrow> pyobj \<Rightarrow> pyval \<Rightarrow> string list \<Rightarrow> error option \<times> backend" where
  "ref_delete_networks b c nid sw =
     (None, b\<lparr>switches := filter (\<lambda>(n, ls). ls_uuid ls \<notin> set sw) (switches b)\<rparr>)"

definition ref_of_cluster :: "pyobj \<Rightarrow> (pyval \<times> 'a) list \<Rightarrow> error + 'a list" where
  "ref_of_cluster c rs =
     (case c of
        Str s \<Rightarrow> Inl AttributeError
      | Cluster cl \<Rightarrow> Inr (map snd (filter (\<lambda>(n, r). n = name cl) rs)))"

definition ref_create_lport ::
  "backend \<Rightarrow> pyobj \<Rightarrow> string \<Rightarrow> pyval list \<Rightarrow> (error + lport) \<times> backend" where
  "ref_create_lport b c u args =
     (case c of
        Str s \<Rightarrow> (Inl AttributeError, b)
      | Cluster cl \<Rightarrow>
         (case args of
            [tenant, pid, nm, device, admin, mac, ips, psec] \<Rightarrow>
              (let lp = \<lparr>lp_uuid = ''lp-'' @ decimal (length (lports b)),
                         lp_tags = [(''q_port_id'', ref_str pid)],
                         admin_status_enabled = truthy admin,
                         lp_display_name = ref_str nm,
                         fabric_status_up = True\<rparr>
               in (Inr lp,
                   b\<lparr>switches := map (\<lambda>(n, ls). if ls_uuid ls = u
                                         then (n, ls\<lparr>lport_count := lport_count ls + 1\<rparr>)
                                         else (n, ls)) (switches b),
                     lports := lports b @ [(name cl, lp)]\<rparr>))
          | _ \<Rightarrow> (Inl (OtherException ''create_lport''), b)))"

definition ref_nvplib :: "backend nvplib" where
  "ref_nvplib =
     \<lparr>get_lswitches = ref_get_lswitches,
      create_lswitch = ref_create_lswitch,
      update_lswitch = ref_update_lswitch,
      delete_networks = ref_delete_networks,
      get_all_query_pages_lswitch = (\<lambda>b path c. ref_of_cluster c (switches b)),
      get_all_query_pages_lport = (\<lambda>b path c. ref_of_cluster c (lports b)),
      create_lport = ref_create_lport,
      plug_interface = (\<lambda>b c u lp kind pid. (None, b))\<rparr>"

text \<open>One cluster \<open>c1\<close> of zone \<open>z1\<close>, and a plugin configured with it.\<close>

definition c1 :: NVPCluster where
  "c1 = \<lparr>name = PStr ''c1'',
         controllers = [\<lparr>ip = PStr ''10.0.0.1'', user = PStr ''admin'',
                         password = PStr ''admin'', default_tz_uuid = PStr ''tz-1'',
                         uuid = PStr ''cluster-1'', zone = PStr ''z1'', port = 443,
                         request_timeout = 30, http_timeout = 10, retries = 2,
                         redirects = 2\<rparr>]\<rparr>"

definition plugin1 :: plugin where
  "plugin1 = \<lparr>clusters = [(''c1'', c1)], default_cluster = c1,
              novazone_cluster_map = Some [],
              max_lp_per_overlay_ls = 256, max_lp_per_bridged_ls = 64\<rparr>"

definition ctx1 :: request_context where
  "ctx1 = \<lparr>is_admin = False, tenant_id = PStr ''t1''\<rparr>"

definition world1 :: "store \<Rightarrow> backend \<Rightarrow> (store, backend) world" where
  "world1 d b = \<lparr>self = plugin1, db = d, nvp = b, LOG = []\<rparr>"

text \<open>An empty store and backend, and a store with one network \<open>n1\<close>.\<close>

definition store0 :: store where
  "store0 = \<lparr>networks = [], bindings = [], ports = []\<rparr>"

definition backend0 :: backend where
  "backend0 = \<lparr>switches = [], lports = []\<rparr>"

definition net1 :: pydict where
  "net1 = [(''id'', PStr ''n1''), (''name'', PStr ''net1''), (''tenant_id'', PStr ''t1''),
           (''admin_state_up'', PBool True)]"

definition store1 :: store where
  "store1 = \<lparr>networks = [net1], bindings = [], ports = []\<rparr>"

text \<open>
  A request for a vlan network on \<open>phys1\<close> with a given segmentation id, and a store in
  which network \<open>n1\<close> is bound to segmentation id 100 on \<open>phys1\<close>.
\<close>

definition vlan_request :: "int \<Rightarrow> pydict" where
  "vlan_request i =
     [(''name'', PStr ''net3''), (''admin_state_up'', PBool True),
      (''tenant_id'', PStr ''t1''),
      (''provider:network_type'', PStr ''vlan''),
      (''provider:physical_network'', PStr ''phys1''),
      (''provider:segmentation_id'', PInt i)]"

definition binding1 :: network_binding where
  "binding1 = \<lparr>binding_type = PStr ''vlan'', tz_uuid = PStr ''phys1'', vlan_id = PInt 100\<rparr>"

definition store2 :: store where
  "store2 = \<lparr>networks = [net1], bindings = [(PStr ''n1'', binding1)], ports = []\<rparr>"

text \<open>
  A backend whose cluster \<open>c1\<close> has the switch of network \<open>n1\<close>, holding 64 ports, and
  the row of \<open>n1\<close>.
\<close>

definition sw_full :: lswitch where
  "sw_full = \<lparr>ls_uuid = ''n1'', display_name = ''net1'', tags = [(''os_tid'', ''t1'')],
              fabric_status = True, lport_count = 64\<rparr>"

definition backend1 :: backend where
  "backend1 = \<lparr>switches = [(PStr ''c1'', sw_full)], lports = []\<rparr>"

definition row1 :: network_row where
  "row1 = \<lparr>net_id = PStr ''n1'', net_name = PStr ''net1'', net_tenant_id = PStr ''t1''\<rparr>"

text \<open>A backend whose switch of \<open>n1\<close> holds 256 ports, and a port request on \<open>n1\<close>.\<close>

definition backend2 :: backend where
  "backend2 = \<lparr>switches = [(PStr ''c1'', sw_full\<lparr>lport_count := 256\<rparr>)], lports = []\<rparr>"

definition port1 :: pydict where
  "port1 = [(''network_id'', PStr ''n1''), (''name'', PStr ''p1''), (''tenant_id'', PStr ''t1''),
            (''device_id'', PStr ''vm1''), (''admin_state_up'', PBool True),
            (''mac_address'', PStr ''fa:16:3e:00:00:01''), (''fixed_ips'', PList []),
            (''port_security_enabled'', ATTR_NOT_SPECIFIED)]"

text \<open>A request without provider attributes, and the switch the reference backend creates
  for it.\<close>

definition net2_request :: pydict where
  "net2_request = [(''name'', PStr ''net2''), (''admin_state_up'', PBool True),
                   (''tenant_id'', PStr ''t1''), (''shared'', ATTR_NOT_SPECIFIED)]"

definition sw0 :: lswitch where
  "sw0 = \<lparr>ls_uuid = ''ls-0'', display_name = ''net2'', tags = [], fabric_status = True,
          lport_count = 0\<rparr>"

text \<open>Two switches that belong to no local network, a backend holding them next to the
  switch of \<open>n1\<close>, and the record of \<open>n1\<close> with the status of its switch.\<close>

definition sw_a :: lswitch where
  "sw_a = \<lparr>ls_uuid = ''x1'', display_name = ''orphan1'', tags = [(''os_tid'', ''t1'')],
           fabric_status = True, lport_count = 0\<rparr>"

definition sw_b :: lswitch where
  "sw_b = \<lparr>ls_uuid = ''x2'', display_name = ''orphan2'', tags = [(''os_tid'', ''t1'')],
           fabric_status = False, lport_count = 0\<rparr>"

definition backend3 :: backend where
  "backend3 = \<lparr>switches = [(PStr ''c1'', sw_full), (PStr ''c1'', sw_a), (PStr ''c1'', sw_b)],
               lports = []\<rparr>"

definition net1_active :: pydict where
  "net1_active = [(''id'', PStr ''n1''), (''name'', PStr ''net1''), (''tenant_id'', PStr ''t1''),
                  (''admin_state_up'', PBool True), (''status'', PStr ''ACTIVE'')]"

text \<open>Two local ports of \<open>n1\<close>, a backend port tagged with the id of the first, a backend
  port tagged with an id no local port has, and the first port as the projection returns
  it.\<close>

definition port_a :: pydict where
  "port_a = [(''id'', PStr ''port-a''), (''network_id'', PStr ''n1''), (''name'', PStr []),
             (''admin_state_up'', PBool True), (''status'', PStr ''DOWN'')]"

definition port_b :: pydict where
  "port_b = [(''id'', PStr ''port-b''), (''network_id'', PStr ''n1''), (''name'', PStr []),
             (''admin_state_up'', PBool True), (''status'', PStr ''DOWN'')]"

definition lp_a :: lport where
  "lp_a = \<lparr>lp_uuid = ''lp-0'', lp_tags = [(''vm_id'', ''sha1:vm1''), (''q_port_id'', ''port-a'')],
           admin_status_enabled = False, lp_display_name = ''vm1-eth0'',
           fabric_status_up = True\<rparr>"

definition lp_z :: lport where
  "lp_z = \<lparr>lp_uuid = ''lp-1'', lp_tags = [(''q_port_id'', ''port-z'')],
           admin_status_enabled = True, lp_display_name = ''stray'',
           fabric_status_up = False\<rparr>"

definition store3 :: store where
  "store3 = \<lparr>networks = [net1], bindings = [], ports = [port_a, port_b]\<rparr>"

definition backend4 :: backend where
  "backend4 = \<lparr>switches = [(PStr ''c1'', sw_full)],
               lports = [(PStr ''c1'', lp_a), (PStr ''c1'', lp_z)]\<rparr>"

definition port_a_projected :: pydict where
  "port_a_projected =
     [(''id'', PStr ''port-a''), (''network_id'', PStr ''n1''), (''name'', PStr ''vm1-eth0''),
      (''admin_state_up'', PBool False), (''status'', PStr ''ACTIVE'')]"

section \<open>Properties\<close>

lemma truthy_not_is_False: "truthy v \<Longrightarrow> \<not> is_False v"
  by (cases v) auto

text \<open>
  C9. In \<open>update_network\<close> the branch that raises NotImplementedError is never taken:
  the outer test is the truthiness of \<open>admin_state_up\<close>, and a truthy value is not
  \<open>False\<close>. For every request, also one that sets \<open>admin_state_up\<close> to \<open>False\<close>, the
  method does exactly what its transaction block does.
\<close>

theorem update_network_never_rejects_admin_state_down:
  "update_network q ctx nid network w = update_network_tx q ctx nid network w"
  by (auto simp: update_network_def dict_get_def subscript_def
      dest: truthy_not_is_False split: option.splits)

subsection \<open>delete\_network on a network without switches\<close>

lemma collect_pairs_none:
  "list_all (\<lambda>c. get_lswitches lib b c nid = Inl NetworkNotFound) cs \<Longrightarrow>
   collect_pairs lib b nid cs pairs = Inr pairs"
  by (induction cs arbitrary: pairs) auto

text \<open>
  C1, as amended. \<open>delete_network\<close> first deletes the local record through the base
  plugin, whose exception, if any, is raised as it is. When no cluster has a switch for
  the network id (every query raises \<open>NetworkNotFound\<close>), the method then raises
  \<open>NetworkNotFound\<close> before any backend deletion: the backend, the plugin object and the
  log are unchanged, and the local store is the one the base plugin's deletion left.
\<close>

theorem delete_network_without_switches:
  assumes "list_all (\<lambda>c. get_lswitches lib (nvp w) c nid = Inl NetworkNotFound)
             (cluster_values (self w))"
  shows "delete_network q lib ctx nid w =
           (case super_delete_network q ctx nid (db w) of
              Inl e \<Rightarrow> (Inl e, w)
            | Inr d1 \<Rightarrow> (Inl NetworkNotFound, w\<lparr>db := d1\<rparr>))"
  using collect_pairs_none [OF assms, of "[]"]
  by (simp add: delete_network_def get_lswitch_cluster_pairs_def split: sum.splits)

text \<open>
  On the reference store holding the network \<open>n1\<close>, with no switch on the backend, the
  method raises \<open>NetworkNotFound\<close> and the record of \<open>n1\<close> is gone.
\<close>

theorem delete_network_without_switches_witness:
  "list_all (\<lambda>c. get_lswitches ref_nvplib (nvp (world1 store1 backend0)) c (PStr ''n1'')
               = Inl NetworkNotFound) (cluster_values (self (world1 store1 backend0))) \<and>
   delete_network ref_quantum ref_nvplib ctx1 (PStr ''n1'') (world1 store1 backend0)
     = (Inl NetworkNotFound, world1 store0 backend0)"
proof -
  have h: "list_all (\<lambda>c. get_lswitches ref_nvplib (nvp (world1 store1 backend0)) c (PStr ''n1'')
               = Inl NetworkNotFound) (cluster_values (self (world1 store1 backend0)))"
    by (simp add: cluster_values_def world1_def plugin1_def ref_nvplib_def
        ref_get_lswitches_def backend0_def)
  from delete_network_without_switches [OF h, of ref_quantum ctx1] h
  show ?thesis
    by (simp add: ref_quantum_def ref_delete_network_def world1_def store1_def store0_def
        net1_def dict_get_def)
qed

text \<open>
  The claim as stated fails there: the call raises \<open>NetworkNotFound\<close>, and the local
  store is not the one it started from.
\<close>

theorem delete_network_touches_store_counterexample:
  "fst (delete_network ref_quantum ref_nvplib ctx1 (PStr ''n1'') (world1 store1 backend0))
     = Inl NetworkNotFound \<and>
   db (snd (delete_network ref_quantum ref_nvplib ctx1 (PStr ''n1'') (world1 store1 backend0)))
     \<noteq> db (world1 store1 backend0)"
  by (simp add: delete_network_def get_lswitch_cluster_pairs_def cluster_values_def
      ref_quantum_def ref_nvplib_def ref_delete_network_def ref_get_lswitches_def
      world1_def plugin1_def store1_def store0_def backend0_def net1_def dict_get_def)

subsection \<open>Resolving a zone that is not in the cache\<close>

lemma zone_scan_str:
  "fst (zone_scan q z m (map (\<lambda>kv. Str (fst kv)) (kv # kvs)) w) = Inl AttributeError \<and>
   self (snd (zone_scan q z m (map (\<lambda>kv. Str (fst kv)) (kv # kvs)) w)) = self w"
  by (simp add: log_msg_def Let_def)

text \<open>
  C3. The claim asks that a zone missing from the cache is resolved by scanning the
  clusters. The code does not do that: the scan ranges over the keys of \<open>self.clusters\<close>,
  and the first \<open>x.zone\<close> raises AttributeError. Whenever the map exists, the zone is not
  in it and some cluster is configured, the call raises AttributeError and the map is
  left as it was, whatever the zones of the clusters are.
\<close>

theorem novazone_scan_raises_AttributeError:
  assumes "novazone_cluster_map (self w) = Some m" and "map_of m z = None"
    and "clusters (self w) \<noteq> []"
  shows "fst (novazone_to_cluster q z w) = Inl AttributeError \<and>
         novazone_cluster_map (self (snd (novazone_to_cluster q z w))) = Some m"
proof -
  from assms(3) obtain kv kvs where c: "clusters (self w) = kv # kvs"
    by (cases "clusters (self w)") auto
  show ?thesis
    using assms(1,2) c
      zone_scan_str [of q z m kv kvs "log_msg DEBUG ''Looking for nova zone: %s'' [z] w"]
    by (simp add: novazone_to_cluster_def log_msg_def)
qed

text \<open>
  The plugin with the single cluster \<open>c1\<close> of zone \<open>z1\<close> and an empty map, asked for zone
  \<open>z1\<close>: the zone of \<open>c1\<close> is \<open>z1\<close>, and the call raises AttributeError.
\<close>

theorem novazone_scan_raises_AttributeError_witness:
  "novazone_cluster_map (self (world1 store0 backend0)) = Some [] \<and>
   map_of ([] :: (pyval \<times> pyobj) list) (PStr ''z1'') = None \<and>
   clusters (self (world1 store0 backend0)) \<noteq> [] \<and>
   NVPCluster_zone c1 = Inr (PStr ''z1'') \<and>
   fst (novazone_to_cluster ref_quantum (PStr ''z1'') (world1 store0 backend0))
     = Inl AttributeError"
proof -
  have h1: "novazone_cluster_map (self (world1 store0 backend0)) = Some []"
    by (simp add: world1_def plugin1_def)
  have h2: "map_of ([] :: (pyval \<times> pyobj) list) (PStr ''z1'') = None" by simp
  have h3: "clusters (self (world1 store0 backend0)) \<noteq> []"
    by (simp add: world1_def plugin1_def)
  have h4: "NVPCluster_zone c1 = Inr (PStr ''z1'')"
    by (simp add: NVPCluster_zone_def get_controller_def c1_def)
  from novazone_scan_raises_AttributeError [OF h1 h2 h3, of ref_quantum] h1 h2 h3 h4
  show ?thesis by simp
qed

text \<open>The same through \<open>_find_target_cluster\<close>, for a resource of zone \<open>z1\<close>.\<close>

lemma find_target_cluster_zone_z1:
  "fst (find_target_cluster ref_quantum [(''nova_id'', PStr ''z1'')]
          (world1 store0 backend0)) = Inl AttributeError"
  by (simp add: find_target_cluster_def contains_def subscript_def novazone_to_cluster_def
      world1_def plugin1_def log_msg_def)

subsection \<open>get\_networks without filters\<close>

text \<open>
  C10. With \<open>filters\<close> left at its default \<open>None\<close>, \<open>get_networks\<close> never returns a
  result: once the local read has returned, the first \<open>filters.get\<close> raises
  AttributeError (an exception of the local read itself comes first). When \<open>filters\<close> is
  a mapping, the tenant filter and every \<open>filters.get\<close> are defined.
\<close>

theorem get_networks_requires_filters:
  "get_networks q lib ctx None flds w =
     (case get_networks_local q ctx None (db w) of
        Inl e \<Rightarrow> (Inl e, w)
      | Inr quantum_lswitches \<Rightarrow> (Inl AttributeError, w))
   \<and> (\<exists>tenant_filter. networks_tenant_filter q ctx (Some f) = Inr tenant_filter)
   \<and> (\<exists>vs. filters_get (Some f) k = Inr vs)"
  by (auto simp: get_networks_def networks_tenant_filter_def tenant_filter_elif_def
      filters_get_def split: sum.splits option.splits)

subsection \<open>Validation of a vlan request\<close>

text \<open>
  C4. A create request of type vlan whose provider attributes the caller may set, with
  segmentation id \<open>i\<close>: when \<open>i\<close> is outside 1..4094 the request fails with
  \<open>InvalidInput\<close>; when \<open>i\<close> is in range and the binding table holds a binding of that
  segmentation id, it fails with \<open>VlanIdInUse\<close>. In both cases the world is returned as
  it was: no local record, no backend switch, no log entry. The code looks the binding
  up by segmentation id alone, so a bound (physical network, segmentation id) pair is
  found whatever the physical network of the request is.
\<close>

theorem create_network_vlan_checks:
  assumes "dict_get network (NETWORK_TYPE q) = PStr ''vlan''"
    and "is_attr_set q (PStr ''vlan'')"
    and "policy_enforce q ctx provider_network_set network = None"
    and "dict_get network (SEGMENTATION_ID q) = PInt i"
    and "is_attr_set q (PInt i)"
  shows "(i < 1 \<or> 4094 < i \<longrightarrow>
            create_network q lib ctx network w =
              (Inl (InvalidInput (py_str q (PInt i) @ '' out of range (1 to 4094)'')), w))
       \<and> (1 \<le> i \<and> i \<le> 4094 \<and> get_network_binding_by_vlanid q (db w) (PInt i) = Some b \<longrightarrow>
            create_network q lib ctx network w = (Inl VlanIdInUse, w))"
  using assms
  by (auto simp: create_network_def handle_provider_create_def Let_def)

text \<open>
  On the reference store where \<open>(phys1, 100)\<close> is bound to \<open>n1\<close>: segmentation id 5000 is
  refused as out of range and segmentation id 100 as in use, and nothing changes.
\<close>

theorem create_network_vlan_checks_witness:
  "create_network ref_quantum ref_nvplib ctx1 (vlan_request 5000) (world1 store2 backend0)
     = (Inl (InvalidInput ''5000 out of range (1 to 4094)''), world1 store2 backend0) \<and>
   create_network ref_quantum ref_nvplib ctx1 (vlan_request 100) (world1 store2 backend0)
     = (Inl VlanIdInUse, world1 store2 backend0)"
proof -
  have a: "dict_get (vlan_request i) (NETWORK_TYPE ref_quantum) = PStr ''vlan''" for i
    by (simp add: vlan_request_def ref_quantum_def dict_get_def)
  have b: "is_attr_set ref_quantum (PStr ''vlan'')" by (simp add: ref_quantum_def)
  have c: "policy_enforce ref_quantum ctx1 provider_network_set (vlan_request i) = None" for i
    by (simp add: ref_quantum_def)
  have d: "dict_get (vlan_request i) (SEGMENTATION_ID ref_quantum) = PInt i" for i
    by (simp add: vlan_request_def ref_quantum_def dict_get_def)
  have e: "is_attr_set ref_quantum (PInt i)" for i by (simp add: ref_quantum_def)
  have f: "get_network_binding_by_vlanid ref_quantum (db (world1 store2 backend0)) (PInt 100)
             = Some binding1"
    by (simp add: ref_quantum_def world1_def store2_def binding1_def)
  have g: "py_str ref_quantum (PInt 5000) = ''5000''"
    by (simp add: ref_quantum_def decimal.simps)
  from create_network_vlan_checks [OF a b c d e, of 5000 ref_nvplib "world1 store2 backend0"]
    create_network_vlan_checks [OF a b c d e, of 100 ref_nvplib "world1 store2 backend0"]
    f g
  show ?thesis by simp
qed

subsection \<open>Switch selection\<close>

lemma filter_Cons_first:
  "filter P xs = y # ys \<Longrightarrow> y \<in> set xs \<and> P y"
proof -
  assume "filter P xs = y # ys"
  then have "y \<in> set (filter P xs)" by simp
  then show ?thesis by simp
qed

text \<open>
  C5. Let the backend know the switches \<open>lswitches\<close> of the network.
  \<^item> If some switch has fewer than \<open>max_ports\<close> ports, the first such switch is returned,
    and nothing changes.
  \<^item> If none has and extra switches are not allowed, the selection raises
    \<open>NvpNoMorePortsException\<close> and the backend is unchanged.
  \<^item> If none has and extra switches are allowed, then, provided the switch whose uuid is
    the network id is among them, the network has a binding, and the backend accepts the
    tagging of that switch (when it is not yet tagged) and the creation, the switch
    returned is the one the backend created under the name made of the network name,
    \<open>-ext-\<close> and the number of known switches.
  \<^item> Whatever is returned is either a known switch below \<open>max_ports\<close>, or comes from the
    creation branch, taken only when extra switches are allowed and every known switch is
    full.
\<close>

theorem handle_lswitch_selection_spec:
  assumes "get_lswitches lib (nvp w) cluster (net_id network) = Inr lswitches"
  shows
   "(\<forall>ls rest. filter (\<lambda>ls. lport_count ls < max_ports) lswitches = ls # rest \<longrightarrow>
        handle_lswitch_selection q lib cluster network nb max_ports allow w = (Inr ls, w) \<and>
        ls \<in> set lswitches \<and> lport_count ls < max_ports)
    \<and> (filter (\<lambda>ls. lport_count ls < max_ports) lswitches = [] \<and> \<not> allow \<longrightarrow>
        fst (handle_lswitch_selection q lib cluster network nb max_ports allow w)
          = Inl NvpNoMorePortsException \<and>
        nvp (snd (handle_lswitch_selection q lib cluster network nb max_ports allow w)) = nvp w)
    \<and> (\<forall>main_ls others binding b1 ls b2.
        filter (\<lambda>ls. lport_count ls < max_ports) lswitches = [] \<and> allow \<and>
        filter (\<lambda>ls. PStr (ls_uuid ls) = net_id network) lswitches = main_ls # others \<and>
        nb = Some binding \<and>
        (if map_of (tags main_ls) ''multi_lswitch'' = None
         then update_lswitch lib (nvp w) cluster (ls_uuid main_ls) (display_name main_ls)
                (net_tenant_id network) [(''multi_lswitch'', ''True'')]
         else (None, nvp w)) = (None, b1) \<and>
        create_lswitch lib b1 cluster (net_tenant_id network)
          (PStr (py_str q (net_name network) @ ''-ext-'' @ decimal (length lswitches)))
          (binding_type binding) (tz_uuid binding) (vlan_id binding) (net_id network)
          = (Inr ls, b2) \<longrightarrow>
        fst (handle_lswitch_selection q lib cluster network nb max_ports allow w) = Inr ls \<and>
        nvp (snd (handle_lswitch_selection q lib cluster network nb max_ports allow w)) = b2)
    \<and> (\<forall>ls w'. handle_lswitch_selection q lib cluster network nb max_ports allow w = (Inr ls, w')
          \<longrightarrow> (ls \<in> set lswitches \<and> lport_count ls < max_ports \<and> w' = w) \<or>
              (allow \<and> list_all (\<lambda>ls. max_ports \<le> lport_count ls) lswitches))"
proof (intro conjI allI impI)
  fix ls rest
  assume f: "filter (\<lambda>ls. lport_count ls < max_ports) lswitches = ls # rest"
  then show "handle_lswitch_selection q lib cluster network nb max_ports allow w = (Inr ls, w)"
    using assms by (simp add: handle_lswitch_selection_def)
  from filter_Cons_first [OF f]
  show "ls \<in> set lswitches" and "lport_count ls < max_ports" by simp_all
next
  assume "filter (\<lambda>ls. lport_count ls < max_ports) lswitches = [] \<and> \<not> allow"
  then show "fst (handle_lswitch_selection q lib cluster network nb max_ports allow w)
          = Inl NvpNoMorePortsException"
    and "nvp (snd (handle_lswitch_selection q lib cluster network nb max_ports allow w)) = nvp w"
    using assms by (simp_all add: handle_lswitch_selection_def log_msg_def)
next
  fix main_ls others binding b1 ls b2
  assume h: "filter (\<lambda>ls. lport_count ls < max_ports) lswitches = [] \<and> allow \<and>
        filter (\<lambda>ls. PStr (ls_uuid ls) = net_id network) lswitches = main_ls # others \<and>
        nb = Some binding \<and>
        (if map_of (tags main_ls) ''multi_lswitch'' = None
         then update_lswitch lib (nvp w) cluster (ls_uuid main_ls) (display_name main_ls)
                (net_tenant_id network) [(''multi_lswitch'', ''True'')]
         else (None, nvp w)) = (None, b1) \<and>
        create_lswitch lib b1 cluster (net_tenant_id network)
          (PStr (py_str q (net_name network) @ ''-ext-'' @ decimal (length lswitches)))
          (binding_type binding) (tz_uuid binding) (vlan_id binding) (net_id network)
          = (Inr ls, b2)"
  show "fst (handle_lswitch_selection q lib cluster network nb max_ports allow w) = Inr ls"
    and "nvp (snd (handle_lswitch_selection q lib cluster network nb max_ports allow w)) = b2"
  proof -
    have r: "handle_lswitch_selection q lib cluster network nb max_ports allow w =
            (Inr ls, (log_msg DEBUG ''No switch has available ports (%d checked)''
                        [PInt (int (length lswitches))] w)\<lparr>nvp := b2\<rparr>)"
    proof (cases "map_of (tags main_ls) ''multi_lswitch'' = None")
      case True
      with h assms show ?thesis
        by (auto simp: handle_lswitch_selection_def log_msg_def Let_def)
    next
      case False
      with h assms show ?thesis
        by (auto simp: handle_lswitch_selection_def log_msg_def Let_def)
    qed
    show "fst (handle_lswitch_selection q lib cluster network nb max_ports allow w) = Inr ls"
      and "nvp (snd (handle_lswitch_selection q lib cluster network nb max_ports allow w)) = b2"
      by (simp_all add: r)
  qed
next
  fix ls w'
  assume r: "handle_lswitch_selection q lib cluster network nb max_ports allow w = (Inr ls, w')"
  show "(ls \<in> set lswitches \<and> lport_count ls < max_ports \<and> w' = w) \<or>
        (allow \<and> list_all (\<lambda>ls. max_ports \<le> lport_count ls) lswitches)"
  proof (cases "filter (\<lambda>ls. lport_count ls < max_ports) lswitches")
    case Nil
    then have "list_all (\<lambda>ls. max_ports \<le> lport_count ls) lswitches"
      by (simp add: filter_empty_conv list_all_iff not_less)
    moreover have allow
      using r assms Nil by (auto simp: handle_lswitch_selection_def Let_def split: if_splits)
    ultimately show ?thesis by simp
  next
    case (Cons x xs)
    with r assms have "ls = x" "w' = w" by (simp_all add: handle_lswitch_selection_def)
    with filter_Cons_first [OF Cons] show ?thesis by simp
  qed
qed

text \<open>
  The reference backend with the single switch of \<open>n1\<close>, which holds 64 ports. With a
  ceiling of 256 the switch is returned; with a ceiling of 64 and no extra switches the
  selection raises; with extra switches allowed the backend creates \<open>net1-ext-1\<close>.
\<close>

lemma get_lswitches_backend1:
  "get_lswitches ref_nvplib (nvp (world1 store1 backend1)) (Cluster c1) (net_id row1)
     = Inr [sw_full]"
  by (simp add: ref_nvplib_def ref_get_lswitches_def world1_def backend1_def c1_def row1_def
      sw_full_def)

lemma sw_full_below_256: "filter (\<lambda>ls. lport_count ls < 256) [sw_full] = sw_full # []"
  by (simp add: sw_full_def)

lemma sw_full_not_below_64: "filter (\<lambda>ls. lport_count ls < 64) [sw_full] = []"
  by (simp add: sw_full_def)

lemma sw_full_is_main:
  "filter (\<lambda>ls. PStr (ls_uuid ls) = net_id row1) [sw_full] = sw_full # []"
  by (simp add: sw_full_def row1_def)

lemma ref_tagging_if:
  "(if map_of (tags sw_full) ''multi_lswitch'' = None
    then update_lswitch ref_nvplib (nvp (world1 store1 backend1)) (Cluster c1) (ls_uuid sw_full)
           (display_name sw_full) (net_tenant_id row1) [(''multi_lswitch'', ''True'')]
    else (None, nvp (world1 store1 backend1))) =
   (None, \<lparr>switches = [(PStr ''c1'', sw_full\<lparr>tags := [(''os_tid'', ''t1''),
             (''multi_lswitch'', ''True'')]\<rparr>)], lports = []\<rparr>)"
  by (simp add: ref_nvplib_def ref_update_lswitch_def world1_def backend1_def sw_full_def)

lemma ref_create_ext:
  "create_lswitch ref_nvplib
     \<lparr>switches = [(PStr ''c1'', sw_full\<lparr>tags := [(''os_tid'', ''t1''),
         (''multi_lswitch'', ''True'')]\<rparr>)], lports = []\<rparr>
     (Cluster c1) (net_tenant_id row1)
     (PStr (py_str ref_quantum (net_name row1) @ ''-ext-'' @ decimal (length [sw_full])))
     (binding_type binding1) (tz_uuid binding1) (vlan_id binding1) (net_id row1) =
   (Inr \<lparr>ls_uuid = ''ls-1'', display_name = ''net1-ext-1'',
          tags = [(''quantum_net_id'', ''n1'')], fabric_status = True, lport_count = 0\<rparr>,
    \<lparr>switches = [(PStr ''c1'', sw_full\<lparr>tags := [(''os_tid'', ''t1''),
         (''multi_lswitch'', ''True'')]\<rparr>),
       (PStr ''c1'', \<lparr>ls_uuid = ''ls-1'', display_name = ''net1-ext-1'',
          tags = [(''quantum_net_id'', ''n1'')], fabric_status = True, lport_count = 0\<rparr>)],
     lports = []\<rparr>)"
  by (simp add: ref_nvplib_def ref_create_lswitch_def ref_quantum_def row1_def binding1_def
      c1_def decimal.simps Let_def)

theorem handle_lswitch_selection_spec_witness:
  "get_lswitches ref_nvplib (nvp (world1 store1 backend1)) (Cluster c1) (net_id row1)
     = Inr [sw_full] \<and>
   handle_lswitch_selection ref_quantum ref_nvplib (Cluster c1) row1 None 256 False
     (world1 store1 backend1) = (Inr sw_full, world1 store1 backend1) \<and>
   fst (handle_lswitch_selection ref_quantum ref_nvplib (Cluster c1) row1 None 64 False
     (world1 store1 backend1)) = Inl NvpNoMorePortsException \<and>
   fst (handle_lswitch_selection ref_quantum ref_nvplib (Cluster c1) row1 (Some binding1) 64 True
     (world1 store1 backend1)) =
     Inr \<lparr>ls_uuid = ''ls-1'', display_name = ''net1-ext-1'',
          tags = [(''quantum_net_id'', ''n1'')], fabric_status = True, lport_count = 0\<rparr>"
proof -
  note h = get_lswitches_backend1
  have p1: "handle_lswitch_selection ref_quantum ref_nvplib (Cluster c1) row1 None 256 False
     (world1 store1 backend1) = (Inr sw_full, world1 store1 backend1)"
    using handle_lswitch_selection_spec [OF h, of 256 ref_quantum None False]
      sw_full_below_256
    by blast
  have p2: "fst (handle_lswitch_selection ref_quantum ref_nvplib (Cluster c1) row1 None 64 False
     (world1 store1 backend1)) = Inl NvpNoMorePortsException"
    using handle_lswitch_selection_spec [OF h, of 64 ref_quantum None False]
      sw_full_not_below_64
    by blast
  have p3: "fst (handle_lswitch_selection ref_quantum ref_nvplib (Cluster c1) row1 (Some binding1)
     64 True (world1 store1 backend1)) =
     Inr \<lparr>ls_uuid = ''ls-1'', display_name = ''net1-ext-1'',
          tags = [(''quantum_net_id'', ''n1'')], fabric_status = True, lport_count = 0\<rparr>"
    using handle_lswitch_selection_spec [OF h, of 64 ref_quantum "Some binding1" True]
      sw_full_not_below_64 sw_full_is_main ref_tagging_if ref_create_ext
    by blast
  from h p1 p2 p3 show ?thesis by blast
qed

subsection \<open>create\_port on a full network\<close>

lemma zone_scan_keeps:
  "nvp (snd (zone_scan q z m xs w)) = nvp w \<and> db (snd (zone_scan q z m xs w)) = db w \<and>
   max_lp_per_overlay_ls (self (snd (zone_scan q z m xs w))) = max_lp_per_overlay_ls (self w)"
  by (induction xs arbitrary: w) (auto simp: log_msg_def Let_def split: sum.splits)

lemma find_target_cluster_keeps:
  "nvp (snd (find_target_cluster q r w)) = nvp w \<and> db (snd (find_target_cluster q r w)) = db w"
  by (auto simp: find_target_cluster_def novazone_to_cluster_def zone_scan_keeps log_msg_def
      split: sum.splits option.splits)

lemma session_begin_Inl:
  "fst (body w) = Inl e \<Longrightarrow>
   session_begin body w = (Inl e, (snd (body w))\<lparr>db := db w\<rparr>)"
  by (cases "body w") (auto simp: session_begin_def)

text \<open>
  C7. A create-port request that reaches the switch selection (the caller may set port
  security, the local port record is created, the network exists and the target cluster
  is resolved), on a network that is not bridged (no binding, or a binding that is
  neither flat nor vlan, so extra switches are not allowed) and whose known switches all
  hold at least \<open>max_lp_per_overlay_ls\<close> ports: \<open>create_port\<close> raises
  \<open>NvpNoMorePortsException\<close> itself, not \<open>NvpPluginException\<close>; the local store is the
  one from before the call, so the port record created inside the transaction does not
  persist; and the backend is unchanged.
\<close>

theorem create_port_capacity_exhausted:
  assumes auth: "is_attr_set q (dict_get port_req (PORTSECURITY q)) \<Longrightarrow>
                 policy_enforce q ctx port_security_enabled_create port_req = None"
    and create: "super_create_port q ctx port_req (db w) = Inr (quantum_db, d1)"
    and psec: "determine_port_security_and_has_ip q ctx (dict_update port_req quantum_db) d1
                 = Inr (port_security, has_ip)"
    and pd: "port_data = dict_set (PORTSECURITY q) port_security (dict_update port_req quantum_db)"
    and proc: "process_port_security_create q ctx port_data d1 = Inr d2"
    and nid: "subscript port_data ''network_id'' = Inr network_id"
    and row: "get_network_row q ctx network_id d2 = Inr network"
    and overlay: "case get_network_binding q d2 network_id of
                    None \<Rightarrow> True
                  | Some b \<Rightarrow> binding_type b \<notin> {PStr ''flat'', PStr ''vlan''}"
    and target: "find_target_cluster q port_data (w\<lparr>db := d2\<rparr>) = (Inr cluster, w1)"
    and known: "get_lswitches lib (nvp w) cluster (net_id network) = Inr lswitches"
    and full: "list_all (\<lambda>ls. max_lp_per_overlay_ls (self w) \<le> lport_count ls) lswitches"
  shows "fst (create_port q lib ctx port_req w) = Inl NvpNoMorePortsException \<and>
         db (snd (create_port q lib ctx port_req w)) = db w \<and>
         nvp (snd (create_port q lib ctx port_req w)) = nvp w"
proof -
  have w1: "nvp w1 = nvp w"
    using find_target_cluster_keeps [of q port_data "w\<lparr>db := d2\<rparr>"] target by simp
  have none: "filter (\<lambda>ls. lport_count ls < max_lp_per_overlay_ls (self w)) lswitches = []"
    using full by (simp add: filter_empty_conv list_all_iff not_less)
  have notbridged: "(case get_network_binding q d2 network_id of None \<Rightarrow> False
           | Some b \<Rightarrow> binding_type b \<in> {PStr ''flat'', PStr ''vlan''}) = False"
    using overlay by (simp split: option.splits)
  have sel: "handle_lswitch_selection q lib cluster network (get_network_binding q d2 network_id)
           (max_lp_per_overlay_ls (self w)) False w1 =
         (Inl NvpNoMorePortsException,
          log_msg ERROR ''Maximum number of logical ports reached for logical network %s''
            [net_id network]
            (log_msg DEBUG ''No switch has available ports (%d checked)''
               [PInt (int (length lswitches))] w1))"
    using known none w1 by (simp add: handle_lswitch_selection_def Let_def)
  have tried: "create_port_try q lib port_data network (get_network_binding q d2 network_id)
           (max_lp_per_overlay_ls (self w)) False (w\<lparr>db := d2\<rparr>) =
         (Inl NvpNoMorePortsException,
          log_msg ERROR ''Number of available ports for network %s exhausted'' [network_id]
           (log_msg ERROR ''Maximum number of logical ports reached for logical network %s''
            [net_id network]
            (log_msg DEBUG ''No switch has available ports (%d checked)''
               [PInt (int (length lswitches))] w1)))"
    using nid target sel by (simp add: create_port_try_def create_port_nvp_def)
  have tx: "create_port_tx q lib ctx port_req w =
         (Inl NvpNoMorePortsException,
          (log_msg ERROR ''Number of available ports for network %s exhausted'' [network_id]
           (log_msg ERROR ''Maximum number of logical ports reached for logical network %s''
            [net_id network]
            (log_msg DEBUG ''No switch has available ports (%d checked)''
               [PInt (int (length lswitches))] w1)))\<lparr>db := db w\<rparr>)"
    unfolding create_port_tx_def
    apply (rule trans [OF session_begin_Inl [where e = NvpNoMorePortsException]])
    using create psec pd proc nid row notbridged tried
    by (simp_all add: Let_def)
  have "create_port q lib ctx port_req w = create_port_tx q lib ctx port_req w"
    using auth by (simp add: create_port_def)
  with tx w1 show ?thesis by (simp add: log_msg_def)
qed

text \<open>
  On the reference store: network \<open>n1\<close> has one switch holding 256 ports, the overlay
  ceiling. Creating a port on it raises \<open>NvpNoMorePortsException\<close>, and the store still
  has no port.
\<close>

theorem create_port_capacity_exhausted_witness:
  "get_lswitches ref_nvplib (nvp (world1 store1 backend2)) (Cluster c1) (PStr ''n1'')
     = Inr [sw_full\<lparr>lport_count := 256\<rparr>] \<and>
   max_lp_per_overlay_ls (self (world1 store1 backend2)) = 256 \<and>
   fst (create_port ref_quantum ref_nvplib ctx1 port1 (world1 store1 backend2))
     = Inl NvpNoMorePortsException \<and>
   db (snd (create_port ref_quantum ref_nvplib ctx1 port1 (world1 store1 backend2))) = store1 \<and>
   ports store1 = []"
proof -
  let ?w = "world1 store1 backend2"
  let ?r = "dict_set ''id'' (PStr ''port-0'') port1"
  let ?d1 = "store1\<lparr>ports := [?r]\<rparr>"
  let ?pd = "dict_set (PORTSECURITY ref_quantum) ATTR_NOT_SPECIFIED (dict_update port1 ?r)"
  have auth: "is_attr_set ref_quantum (dict_get port1 (PORTSECURITY ref_quantum)) \<Longrightarrow>
      policy_enforce ref_quantum ctx1 port_security_enabled_create port1 = None"
    by (simp add: ref_quantum_def)
  have create: "super_create_port ref_quantum ctx1 port1 (db ?w) = Inr (?r, ?d1)"
    by (simp add: ref_quantum_def ref_create_port_def world1_def store1_def decimal.simps Let_def)
  have psec: "determine_port_security_and_has_ip ref_quantum ctx1 (dict_update port1 ?r) ?d1
      = Inr (ATTR_NOT_SPECIFIED, PBool False)"
    by (simp add: ref_quantum_def port1_def dict_update_def dict_get_def)
  have proc: "process_port_security_create ref_quantum ctx1 ?pd ?d1 = Inr ?d1"
    by (simp add: ref_quantum_def)
  have nid: "subscript ?pd ''network_id'' = Inr (PStr ''n1'')"
    by (simp add: ref_quantum_def port1_def dict_update_def subscript_def)
  have row: "get_network_row ref_quantum ctx1 (PStr ''n1'') ?d1 = Inr row1"
    by (simp add: ref_quantum_def ref_get_network_row_def store1_def net1_def dict_get_def
        row1_def)
  have overlay: "case get_network_binding ref_quantum ?d1 (PStr ''n1'') of
                    None \<Rightarrow> True
                  | Some b \<Rightarrow> binding_type b \<notin> {PStr ''flat'', PStr ''vlan''}"
    by (simp add: ref_quantum_def store1_def)
  have target: "find_target_cluster ref_quantum ?pd (?w\<lparr>db := ?d1\<rparr>)
      = (Inr (Cluster c1), ?w\<lparr>db := ?d1\<rparr>)"
    by (simp add: find_target_cluster_def contains_def ref_quantum_def port1_def
        dict_update_def world1_def plugin1_def)
  have known: "get_lswitches ref_nvplib (nvp ?w) (Cluster c1) (net_id row1)
      = Inr [sw_full\<lparr>lport_count := 256\<rparr>]"
    by (simp add: ref_nvplib_def ref_get_lswitches_def world1_def backend2_def c1_def row1_def
        sw_full_def)
  have full: "list_all (\<lambda>ls. max_lp_per_overlay_ls (self ?w) \<le> lport_count ls)
      [sw_full\<lparr>lport_count := 256\<rparr>]"
    by (simp add: world1_def plugin1_def)
  have c: "fst (create_port ref_quantum ref_nvplib ctx1 port1 ?w) = Inl NvpNoMorePortsException \<and>
         db (snd (create_port ref_quantum ref_nvplib ctx1 port1 ?w)) = db ?w \<and>
         nvp (snd (create_port ref_quantum ref_nvplib ctx1 port1 ?w)) = nvp ?w"
    by (rule create_port_capacity_exhausted
          [OF auth create psec refl proc nid row overlay target known full])
  have k: "get_lswitches ref_nvplib (nvp ?w) (Cluster c1) (PStr ''n1'')
      = Inr [sw_full\<lparr>lport_count := 256\<rparr>]"
    using known by (simp add: row1_def)
  have d: "db ?w = store1" "max_lp_per_overlay_ls (self ?w) = 256" "ports store1 = []"
    by (simp_all add: world1_def plugin1_def store1_def)
  from c k d show ?thesis by simp
qed

subsection \<open>create\_network: backend first, then one transaction\<close>

lemma session_begin_db:
  "fst (session_begin body w) = Inl e \<Longrightarrow> db (snd (session_begin body w)) = db w"
  by (cases "body w") (auto simp: session_begin_def split: sum.splits)

lemma find_target_cluster_db:
  "find_target_cluster q r w = (x, w') \<Longrightarrow> db w' = db w \<and> nvp w' = nvp w"
  using find_target_cluster_keeps [of q r w] by simp

lemma create_network_tx_db:
  "fst (create_network_tx q ctx network net_data w) = Inl e \<Longrightarrow>
   db (snd (create_network_tx q ctx network net_data w)) = db w"
  unfolding create_network_tx_def by (rule session_begin_db)

lemma admin_state_warning_keeps:
  "db (admin_state_warning nd a w) = db w \<and> nvp (admin_state_warning nd a w) = nvp w"
  by (simp add: admin_state_warning_def log_msg_def)

lemma create_network_unfold:
  assumes "handle_provider_create q ctx network (db w) = None"
    and "subscript (replace_not_specified network network) ''admin_state_up'' = Inr a"
    and "get_tenant_id_for_create q ctx (replace_not_specified network network) = Inr tenant"
    and "find_target_cluster q (replace_not_specified network network)
           (admin_state_warning (replace_not_specified network network) a w)
         = (Inr target_cluster, w2)"
  shows "create_network q lib ctx network w =
      (case create_lswitch lib (nvp w2) target_cluster tenant
              (dict_get (replace_not_specified network network) ''name'')
              (dict_get (replace_not_specified network network) (NETWORK_TYPE q))
              (dict_get (replace_not_specified network network) (PHYSICAL_NETWORK q))
              (dict_get (replace_not_specified network network) (SEGMENTATION_ID q))
              PNone of
         (Inl e, b1) \<Rightarrow> (Inl e, w2\<lparr>nvp := b1\<rparr>)
       | (Inr ls, b1) \<Rightarrow>
          create_network_tx q ctx (dict_set ''id'' (PStr (ls_uuid ls)) network)
            (replace_not_specified network network) (w2\<lparr>nvp := b1\<rparr>))"
  using assms by (simp add: create_network_def Let_def admin_state_warning_def)

lemma create_network_early:
  "handle_provider_create q ctx network (db w) = Some e \<Longrightarrow>
     create_network q lib ctx network w = (Inl e, w)"
  "handle_provider_create q ctx network (db w) = None \<Longrightarrow>
   subscript (replace_not_specified network network) ''admin_state_up'' = Inl e \<Longrightarrow>
     create_network q lib ctx network w = (Inl e, w)"
  "handle_provider_create q ctx network (db w) = None \<Longrightarrow>
   subscript (replace_not_specified network network) ''admin_state_up'' = Inr a \<Longrightarrow>
   get_tenant_id_for_create q ctx (replace_not_specified network network) = Inl e \<Longrightarrow>
     create_network q lib ctx network w =
       (Inl e, admin_state_warning (replace_not_specified network network) a w)"
  "handle_provider_create q ctx network (db w) = None \<Longrightarrow>
   subscript (replace_not_specified network network) ''admin_state_up'' = Inr a \<Longrightarrow>
   get_tenant_id_for_create q ctx (replace_not_specified network network) = Inr tenant \<Longrightarrow>
   find_target_cluster q (replace_not_specified network network)
           (admin_state_warning (replace_not_specified network network) a w) = (Inl e, w2) \<Longrightarrow>
     create_network q lib ctx network w = (Inl e, w2)"
  by (simp_all add: create_network_def Let_def admin_state_warning_def)

lemma create_network_outcomes:
  fixes w :: "('d, 'b) world"
  shows
  "(\<forall>e. fst (create_network q lib ctx network w) = Inl e \<longrightarrow>
        db (snd (create_network q lib ctx network w)) = db w)
   \<and> (\<forall>new_net. fst (create_network q lib ctx network w) = Inr new_net \<longrightarrow>
        (\<exists>tenant target_cluster (w2 :: ('d, 'b) world) ls b1.
           db w2 = db w \<and> nvp w2 = nvp w \<and>
           create_lswitch lib (nvp w) target_cluster tenant
             (dict_get (replace_not_specified network network) ''name'')
             (dict_get (replace_not_specified network network) (NETWORK_TYPE q))
             (dict_get (replace_not_specified network network) (PHYSICAL_NETWORK q))
             (dict_get (replace_not_specified network network) (SEGMENTATION_ID q))
             PNone = (Inr ls, b1) \<and>
           create_network q lib ctx network w =
             create_network_tx q ctx (dict_set ''id'' (PStr (ls_uuid ls)) network)
               (replace_not_specified network network) (w2\<lparr>nvp := b1\<rparr>)))"
proof -
  let ?nd = "replace_not_specified network network"
  let ?R = "create_network q lib ctx network w"
  let ?A = "\<forall>e. fst ?R = Inl e \<longrightarrow> db (snd ?R) = db w"
  let ?B = "\<forall>new_net. fst ?R = Inr new_net \<longrightarrow>
        (\<exists>tenant target_cluster (w2 :: ('d, 'b) world) ls b1.
           db w2 = db w \<and> nvp w2 = nvp w \<and>
           create_lswitch lib (nvp w) target_cluster tenant
             (dict_get ?nd ''name'') (dict_get ?nd (NETWORK_TYPE q))
             (dict_get ?nd (PHYSICAL_NETWORK q)) (dict_get ?nd (SEGMENTATION_ID q))
             PNone = (Inr ls, b1) \<and>
           ?R = create_network_tx q ctx (dict_set ''id'' (PStr (ls_uuid ls)) network) ?nd
                  (w2\<lparr>nvp := b1\<rparr>))"
  show "?A \<and> ?B"
  proof (cases "handle_provider_create q ctx network (db w)")
    case (Some e)
    from create_network_early(1) [OF Some, of lib] show ?thesis by simp
  next
    case None
    show ?thesis
    proof (cases "subscript ?nd ''admin_state_up''")
      case (Inl e)
      from create_network_early(2) [OF None Inl, of lib] show ?thesis by simp
    next
      case (Inr a)
      let ?w1 = "admin_state_warning ?nd a w"
      note k1 = admin_state_warning_keeps [of ?nd a w]
      show ?thesis
      proof (cases "get_tenant_id_for_create q ctx ?nd")
        case (Inl e)
        from create_network_early(3) [OF None Inr Inl, of lib] k1 show ?thesis by simp
      next
        case tenant: (Inr tenant)
        obtain x w2 where f: "find_target_cluster q ?nd ?w1 = (x, w2)"
          by (cases "find_target_cluster q ?nd ?w1")
        from find_target_cluster_db [OF f] k1 have w2: "db w2 = db w" "nvp w2 = nvp w"
          by simp_all
        show ?thesis
        proof (cases x)
          case (Inl e)
          from create_network_early(4) [OF None Inr tenant, of e w2 lib] f Inl w2
          show ?thesis by simp
        next
          case target: (Inr target_cluster)
          note unf = create_network_unfold [OF None Inr tenant f [unfolded target], of lib]
          obtain y b1 where c: "create_lswitch lib (nvp w) target_cluster tenant
                  (dict_get ?nd ''name'') (dict_get ?nd (NETWORK_TYPE q))
                  (dict_get ?nd (PHYSICAL_NETWORK q)) (dict_get ?nd (SEGMENTATION_ID q))
                  PNone = (y, b1)"
            by (cases "create_lswitch lib (nvp w) target_cluster tenant
                  (dict_get ?nd ''name'') (dict_get ?nd (NETWORK_TYPE q))
                  (dict_get ?nd (PHYSICAL_NETWORK q)) (dict_get ?nd (SEGMENTATION_ID q))
                  PNone")
          show ?thesis
          proof (cases y)
            case (Inl e)
            with unf c w2 have "?R = (Inl e, w2\<lparr>nvp := b1\<rparr>)" by simp
            with w2 show ?thesis by simp
          next
            case ls: (Inr ls)
            with unf c w2 have eq: "?R = create_network_tx q ctx
                  (dict_set ''id'' (PStr (ls_uuid ls)) network) ?nd (w2\<lparr>nvp := b1\<rparr>)"
              by simp
            have ?A
            proof (intro allI impI)
              fix e assume "fst ?R = Inl e"
              with eq create_network_tx_db [of q ctx "dict_set ''id'' (PStr (ls_uuid ls)) network"
                  ?nd "w2\<lparr>nvp := b1\<rparr>" e] w2
              show "db (snd ?R) = db w" by simp
            qed
            moreover have ?B
            proof (intro allI impI)
              fix new_net assume "fst ?R = Inr new_net"
              from w2 c ls eq show "\<exists>tenant target_cluster (w2 :: ('d, 'b) world) ls b1.
                 db w2 = db w \<and> nvp w2 = nvp w \<and>
                 create_lswitch lib (nvp w) target_cluster tenant
                   (dict_get ?nd ''name'') (dict_get ?nd (NETWORK_TYPE q))
                   (dict_get ?nd (PHYSICAL_NETWORK q)) (dict_get ?nd (SEGMENTATION_ID q))
                   PNone = (Inr ls, b1) \<and>
                 ?R = create_network_tx q ctx (dict_set ''id'' (PStr (ls_uuid ls)) network) ?nd
                        (w2\<lparr>nvp := b1\<rparr>)"
                by blast
            qed
            ultimately show ?thesis by blast
          qed
        qed
      qed
    qed
  qed
qed

text \<open>
  C6. For every create-network request:
  \<^item> whenever \<open>create_network\<close> raises, the local store is the one from before the call:
    nothing is written before the transaction, and a failure inside it is rolled back as
    a whole;
  \<^item> whenever it returns, the backend has created a switch on the backend as it was at
    the call, with the local store still untouched, and the rest of the call is the single
    transaction block, run on the request whose \<open>id\<close> is the uuid of that switch (the base
    plugin creates the record from that request);
  \<^item> when the backend fails to create the switch, that exception is the outcome and the
    local store is untouched.
\<close>

theorem create_network_backend_first:
  fixes w :: "('d, 'b) world"
  shows
  "(\<forall>e. fst (create_network q lib ctx network w) = Inl e \<longrightarrow>
        db (snd (create_network q lib ctx network w)) = db w)
   \<and> (\<forall>new_net. fst (create_network q lib ctx network w) = Inr new_net \<longrightarrow>
        (\<exists>tenant target_cluster (w2 :: ('d, 'b) world) ls b1.
           db w2 = db w \<and> nvp w2 = nvp w \<and>
           create_lswitch lib (nvp w) target_cluster tenant
             (dict_get (replace_not_specified network network) ''name'')
             (dict_get (replace_not_specified network network) (NETWORK_TYPE q))
             (dict_get (replace_not_specified network network) (PHYSICAL_NETWORK q))
             (dict_get (replace_not_specified network network) (SEGMENTATION_ID q))
             PNone = (Inr ls, b1) \<and>
           create_network q lib ctx network w =
             create_network_tx q ctx (dict_set ''id'' (PStr (ls_uuid ls)) network)
               (replace_not_specified network network) (w2\<lparr>nvp := b1\<rparr>)))
   \<and> (\<forall>a tenant target_cluster (w2 :: ('d, 'b) world) e b1.
        handle_provider_create q ctx network (db w) = None \<and>
        subscript (replace_not_specified network network) ''admin_state_up'' = Inr a \<and>
        get_tenant_id_for_create q ctx (replace_not_specified network network) = Inr tenant \<and>
        find_target_cluster q (replace_not_specified network network)
          (admin_state_warning (replace_not_specified network network) a w)
          = (Inr target_cluster, w2) \<and>
        create_lswitch lib (nvp w) target_cluster tenant
          (dict_get (replace_not_specified network network) ''name'')
          (dict_get (replace_not_specified network network) (NETWORK_TYPE q))
          (dict_get (replace_not_specified network network) (PHYSICAL_NETWORK q))
          (dict_get (replace_not_specified network network) (SEGMENTATION_ID q))
          PNone = (Inl e, b1) \<longrightarrow>
        create_network q lib ctx network w = (Inl e, w2\<lparr>nvp := b1\<rparr>) \<and> db w2 = db w)"
proof (intro conjI)
  show "\<forall>e. fst (create_network q lib ctx network w) = Inl e \<longrightarrow>
        db (snd (create_network q lib ctx network w)) = db w"
    using create_network_outcomes [of q lib ctx network w] by (rule conjunct1)
  show "\<forall>new_net. fst (create_network q lib ctx network w) = Inr new_net \<longrightarrow>
        (\<exists>tenant target_cluster (w2 :: ('d, 'b) world) ls b1.
           db w2 = db w \<and> nvp w2 = nvp w \<and>
           create_lswitch lib (nvp w) target_cluster tenant
             (dict_get (replace_not_specified network network) ''name'')
             (dict_get (replace_not_specified network network) (NETWORK_TYPE q))
             (dict_get (replace_not_specified network network) (PHYSICAL_NETWORK q))
             (dict_get (replace_not_specified network network) (SEGMENTATION_ID q))
             PNone = (Inr ls, b1) \<and>
           create_network q lib ctx network w =
             create_network_tx q ctx (dict_set ''id'' (PStr (ls_uuid ls)) network)
               (replace_not_specified network network) (w2\<lparr>nvp := b1\<rparr>))"
    using create_network_outcomes [of q lib ctx network w] by (rule conjunct2)
  show "\<forall>a tenant target_cluster (w2 :: ('d, 'b) world) e b1.
        handle_provider_create q ctx network (db w) = None \<and>
        subscript (replace_not_specified network network) ''admin_state_up'' = Inr a \<and>
        get_tenant_id_for_create q ctx (replace_not_specified network network) = Inr tenant \<and>
        find_target_cluster q (replace_not_specified network network)
          (admin_state_warning (replace_not_specified network network) a w)
          = (Inr target_cluster, w2) \<and>
        create_lswitch lib (nvp w) target_cluster tenant
          (dict_get (replace_not_specified network network) ''name'')
          (dict_get (replace_not_specified network network) (NETWORK_TYPE q))
          (dict_get (replace_not_specified network network) (PHYSICAL_NETWORK q))
          (dict_get (replace_not_specified network network) (SEGMENTATION_ID q))
          PNone = (Inl e, b1) \<longrightarrow>
        create_network q lib ctx network w = (Inl e, w2\<lparr>nvp := b1\<rparr>) \<and> db w2 = db w"
  proof (intro allI impI, elim conjE)
    fix a tenant target_cluster and w2 :: "('d, 'b) world" and e b1
    assume hp: "handle_provider_create q ctx network (db w) = None"
      and a: "subscript (replace_not_specified network network) ''admin_state_up'' = Inr a"
      and t: "get_tenant_id_for_create q ctx (replace_not_specified network network) = Inr tenant"
      and f: "find_target_cluster q (replace_not_specified network network)
          (admin_state_warning (replace_not_specified network network) a w)
          = (Inr target_cluster, w2)"
      and c: "create_lswitch lib (nvp w) target_cluster tenant
          (dict_get (replace_not_specified network network) ''name'')
          (dict_get (replace_not_specified network network) (NETWORK_TYPE q))
          (dict_get (replace_not_specified network network) (PHYSICAL_NETWORK q))
          (dict_get (replace_not_specified network network) (SEGMENTATION_ID q))
          PNone = (Inl e, b1)"
    from find_target_cluster_db [OF f]
      admin_state_warning_keeps [of "replace_not_specified network network" a w]
    have w2: "db w2 = db w" "nvp w2 = nvp w" by simp_all
    from create_network_unfold [OF hp a t f, of lib] c w2
    show "create_network q lib ctx network w = (Inl e, w2\<lparr>nvp := b1\<rparr>) \<and> db w2 = db w"
      by simp
  qed
qed

lemma create_network_run:
  "create_network ref_quantum ref_nvplib ctx1 net2_request (world1 store0 backend0) =
     (Inr (net2_request @ [(''id'', PStr ''ls-0'')]),
      world1 \<lparr>networks = [net2_request @ [(''id'', PStr ''ls-0'')]], bindings = [], ports = []\<rparr>
             \<lparr>switches = [(PStr ''c1'', sw0)], lports = []\<rparr>)"
  by (simp add: create_network_def create_network_tx_def session_begin_def
      handle_provider_create_def admin_state_warning_def find_target_cluster_def
      replace_not_specified_def extend_network_dict_provider_def
      ref_quantum_def ref_nvplib_def ref_create_network_def ref_create_lswitch_def
      net2_request_def world1_def plugin1_def store0_def backend0_def sw0_def c1_def
      dict_get_def subscript_def contains_def Let_def decimal.simps)

text \<open>
  On the empty reference store and backend, creating \<open>net2\<close> makes the backend assign
  \<open>ls-0\<close>, and the record stored and returned carries that id.
\<close>

theorem create_network_backend_first_witness:
  "fst (create_network ref_quantum ref_nvplib ctx1 net2_request (world1 store0 backend0))
     = Inr (net2_request @ [(''id'', PStr ''ls-0'')]) \<and>
   networks (db (snd (create_network ref_quantum ref_nvplib ctx1 net2_request
                        (world1 store0 backend0))))
     = [net2_request @ [(''id'', PStr ''ls-0'')]] \<and>
   switches (nvp (snd (create_network ref_quantum ref_nvplib ctx1 net2_request
                        (world1 store0 backend0))))
     = [(PStr ''c1'', sw0)] \<and>
   (\<exists>tenant target_cluster (w2 :: (store, backend) world) ls b1.
       db w2 = db (world1 store0 backend0) \<and> nvp w2 = nvp (world1 store0 backend0) \<and>
       create_lswitch ref_nvplib (nvp (world1 store0 backend0)) target_cluster tenant
         (dict_get (replace_not_specified net2_request net2_request) ''name'')
         (dict_get (replace_not_specified net2_request net2_request) (NETWORK_TYPE ref_quantum))
         (dict_get (replace_not_specified net2_request net2_request)
            (PHYSICAL_NETWORK ref_quantum))
         (dict_get (replace_not_specified net2_request net2_request)
            (SEGMENTATION_ID ref_quantum))
         PNone = (Inr ls, b1) \<and>
       create_network ref_quantum ref_nvplib ctx1 net2_request (world1 store0 backend0) =
         create_network_tx ref_quantum ctx1 (dict_set ''id'' (PStr (ls_uuid ls)) net2_request)
           (replace_not_specified net2_request net2_request) (w2\<lparr>nvp := b1\<rparr>))"
proof -
  note run = create_network_run
  have r: "fst (create_network ref_quantum ref_nvplib ctx1 net2_request (world1 store0 backend0))
     = Inr (net2_request @ [(''id'', PStr ''ls-0'')])"
    by (simp add: run)
  have n: "networks (db (snd (create_network ref_quantum ref_nvplib ctx1 net2_request
                        (world1 store0 backend0))))
     = [net2_request @ [(''id'', PStr ''ls-0'')]]"
    "switches (nvp (snd (create_network ref_quantum ref_nvplib ctx1 net2_request
                        (world1 store0 backend0))))
     = [(PStr ''c1'', sw0)]"
    unfolding run by (simp_all add: world1_def)
  from create_network_backend_first
         [of ref_quantum ref_nvplib ctx1 net2_request "world1 store0 backend0"] r n
  show ?thesis by blast
qed

subsection \<open>get\_networks and drift\<close>

lemma match_lswitch_find:
  "subscript ql ''id'' = Inr i \<Longrightarrow>
   match_lswitch ql ns = Inr (find (\<lambda>ls. PStr (ls_uuid ls) = i) ns)"
  by (induction ns) auto

lemma cross_reference_out_of_sync:
  assumes "list_all (\<lambda>ql. contains ql ''id'') qls"
    and "\<exists>ql\<in>set qls. \<forall>ls\<in>set ns. subscript ql ''id'' \<noteq> Inr (PStr (ls_uuid ls))"
  shows "cross_reference q qls ns = Inl NvpOutOfSyncException"
  using assms
proof (induction qls arbitrary: ns)
  case Nil
  then show ?case by simp
next
  case (Cons ql qs)
  from Cons.prems(1) obtain i where i: "subscript ql ''id'' = Inr i"
    by (auto simp: contains_def subscript_def split: option.splits)
  show ?case
  proof (cases "find (\<lambda>ls. PStr (ls_uuid ls) = i) ns")
    case None
    with i show ?thesis by (simp add: match_lswitch_find)
  next
    case (Some ls)
    then have m: "ls \<in> set ns" "PStr (ls_uuid ls) = i"
      by (auto simp: find_Some_iff)
    from Cons.prems(2) obtain bad where bad: "bad \<in> set (ql # qs)"
      "\<forall>ls\<in>set ns. subscript bad ''id'' \<noteq> Inr (PStr (ls_uuid ls))" by blast
    with m i have "bad \<noteq> ql" by auto
    with bad have "bad \<in> set qs" by simp
    moreover from bad(2) have
      "\<forall>ls'\<in>set (remove1 ls ns). subscript bad ''id'' \<noteq> Inr (PStr (ls_uuid ls'))"
      using set_remove1_subset [of ls ns] by blast
    ultimately have "cross_reference q qs (remove1 ls ns) = Inl NvpOutOfSyncException"
      using Cons.IH [of "remove1 ls ns"] Cons.prems(1) by auto
    with i Some show ?thesis by (simp add: match_lswitch_find)
  qed
qed

lemma match_lswitch_Some:
  "match_lswitch ql ns = Inr (Some ls) \<Longrightarrow>
   ls \<in> set ns \<and> subscript ql ''id'' = Inr (PStr (ls_uuid ls))"
  by (induction ns) (auto split: sum.splits if_splits)

lemma cross_reference_unbound:
  "cross_reference q qls ns = Inr (qls', unbound) \<Longrightarrow>
   length unbound + length qls = length ns \<and> length qls' = length qls \<and>
   (\<forall>ls\<in>set ns. (\<forall>ql\<in>set qls. subscript ql ''id'' \<noteq> Inr (PStr (ls_uuid ls)))
      \<longrightarrow> ls \<in> set unbound)"
proof (induction qls arbitrary: ns qls' unbound)
  case Nil
  then show ?case by auto
next
  case (Cons ql qs)
  from Cons.prems obtain ls qs' where
      m: "match_lswitch ql ns = Inr (Some ls)"
      and r: "cross_reference q qs (remove1 ls ns) = Inr (qs', unbound)"
      and q': "qls' = dict_set ''name'' (PStr (display_name ls))
                    (dict_set ''status''
                       (if fabric_status ls then NET_STATUS_ACTIVE q
                        else NET_STATUS_DOWN q) ql) # qs'"
    by (auto split: sum.splits option.splits)
  from match_lswitch_Some [OF m] have ls: "ls \<in> set ns"
    "subscript ql ''id'' = Inr (PStr (ls_uuid ls))" by simp_all
  from Cons.IH [OF r] have ih: "length unbound + length qs = length (remove1 ls ns)"
    "length qs' = length qs"
    "\<forall>x\<in>set (remove1 ls ns). (\<forall>ql\<in>set qs. subscript ql ''id'' \<noteq> Inr (PStr (ls_uuid x)))
      \<longrightarrow> x \<in> set unbound" by simp_all
  from ls(1) have len: "length (remove1 ls ns) = length ns - 1" "length ns > 0"
    by (auto simp: length_remove1)
  have "\<forall>x\<in>set ns. (\<forall>ql\<in>set (ql # qs). subscript ql ''id'' \<noteq> Inr (PStr (ls_uuid x)))
      \<longrightarrow> x \<in> set unbound"
  proof (intro ballI impI)
    fix x assume x: "x \<in> set ns"
      and n: "\<forall>ql\<in>set (ql # qs). subscript ql ''id'' \<noteq> Inr (PStr (ls_uuid x))"
    from n ls(2) have "x \<noteq> ls" by auto
    with x have "x \<in> set (remove1 ls ns)" by simp
    with ih(3) n show "x \<in> set unbound" by simp
  qed
  with ih(1,2) len q' show ?case by simp
qed

text \<open>
  C2, as amended. Take a \<open>get_networks\<close> call with a filters mapping whose local read has
  returned records that all carry an id, and whose backend query has returned; the
  candidates are the backend switches left by the id filter.
  \<^item> If some local record has no candidate of its id, the call raises
    \<open>NvpOutOfSyncException\<close> (the \<open>else\<close> of the inner loop) and returns nothing.
  \<^item> If every local record finds its switch, the call returns the (field-selected) local
    records; the candidates left over, which include every switch with no local record
    of its uuid, number the candidates minus the local records; they add exactly one
    warning to the log, carrying their count, when there is at least one; no exception
    arises from them; and the backend and the local store are as before, so no orphan is
    deleted.
\<close>

theorem get_networks_drift:
  assumes loc: "get_networks_local q ctx (Some f) (db w) = Inr qls"
    and ids: "list_all (\<lambda>ql. contains ql ''id'') qls"
    and tf: "networks_tenant_filter q ctx (Some f) = Inr tenant_filter"
    and query: "query_lswitches lib (nvp w) (lswitch_url_path tenant_filter)
                  (cluster_values (self w)) [] = Inr nvp_lswitches"
    and idf: "filters_get (Some f) ''id'' = Inr given"
    and cand: "candidates = (if given \<noteq> [] then filter_by_id given nvp_lswitches
                             else nvp_lswitches)"
  shows
   "((\<exists>ql\<in>set qls. \<forall>ls\<in>set candidates. subscript ql ''id'' \<noteq> Inr (PStr (ls_uuid ls))) \<longrightarrow>
       get_networks q lib ctx (Some f) flds w = (Inl NvpOutOfSyncException, w))
    \<and> (\<forall>qls' unbound. cross_reference q qls candidates = Inr (qls', unbound) \<longrightarrow>
         fst (get_networks q lib ctx (Some f) flds w) = select_fields flds qls' \<and>
         db (snd (get_networks q lib ctx (Some f) flds w)) = db w \<and>
         nvp (snd (get_networks q lib ctx (Some f) flds w)) = nvp w \<and>
         LOG (snd (get_networks q lib ctx (Some f) flds w)) =
           LOG w @
           (if unbound = [] then []
            else [(WARNING, networks_drift_warning, [PInt (int (length unbound))])]) @
           [(DEBUG, ''get_networks() completed for tenant %s'', [tenant_id ctx])] \<and>
         length unbound + length qls = length candidates \<and>
         (\<forall>ls\<in>set candidates.
            (\<forall>ql\<in>set qls. subscript ql ''id'' \<noteq> Inr (PStr (ls_uuid ls))) \<longrightarrow>
            ls \<in> set unbound))"
proof (intro conjI allI impI)
  assume "\<exists>ql\<in>set qls. \<forall>ls\<in>set candidates. subscript ql ''id'' \<noteq> Inr (PStr (ls_uuid ls))"
  from cross_reference_out_of_sync [OF ids this, of q]
  show "get_networks q lib ctx (Some f) flds w = (Inl NvpOutOfSyncException, w)"
    using loc tf query idf cand by (simp add: get_networks_def)
next
  fix qls' unbound
  assume c: "cross_reference q qls candidates = Inr (qls', unbound)"
  have r: "get_networks q lib ctx (Some f) flds w =
     (select_fields flds qls',
      log_msg DEBUG ''get_networks() completed for tenant %s'' [tenant_id ctx]
        (if length unbound \<noteq> 0
         then log_msg WARNING networks_drift_warning [PInt (int (length unbound))] w
         else w))"
    using loc tf query idf cand c
    by (cases "select_fields flds qls'") (simp_all add: get_networks_def Let_def)
  show "fst (get_networks q lib ctx (Some f) flds w) = select_fields flds qls'"
    and "db (snd (get_networks q lib ctx (Some f) flds w)) = db w"
    and "nvp (snd (get_networks q lib ctx (Some f) flds w)) = nvp w"
    and "LOG (snd (get_networks q lib ctx (Some f) flds w)) =
           LOG w @
           (if unbound = [] then []
            else [(WARNING, networks_drift_warning, [PInt (int (length unbound))])]) @
           [(DEBUG, ''get_networks() completed for tenant %s'', [tenant_id ctx])]"
    by (simp_all add: r log_msg_def)
  from cross_reference_unbound [OF c]
  show "length unbound + length qls = length candidates"
    and "\<forall>ls\<in>set candidates.
            (\<forall>ql\<in>set qls. subscript ql ''id'' \<noteq> Inr (PStr (ls_uuid ls))) \<longrightarrow>
            ls \<in> set unbound"
    by simp_all
qed

lemma get_networks_local_store1:
  "get_networks_local ref_quantum ctx1 (Some []) (db (world1 store1 b)) = Inr [net1]"
  by (simp add: get_networks_local_def ref_quantum_def ref_matches_def world1_def store1_def
      extend_network_dict_provider_def subscript_def net1_def)

lemma net1_has_id: "list_all (\<lambda>ql. contains ql ''id'') [net1]"
  by (simp add: contains_def net1_def)

lemma tenant_filter_ctx1:
  "networks_tenant_filter ref_quantum ctx1 (Some []) = Inr ''&tag=t1&tag_scope=os_tid''"
  by (simp add: networks_tenant_filter_def tenant_filter_elif_def filters_get_def ctx1_def
      ref_quantum_def)

lemma query_backend3:
  "query_lswitches ref_nvplib (nvp (world1 store1 backend3)) path
     (cluster_values (self (world1 store1 backend3))) [] = Inr [sw_full, sw_a, sw_b]"
  by (simp add: ref_nvplib_def ref_of_cluster_def cluster_values_def world1_def plugin1_def
      backend3_def c1_def)

lemma query_backend0:
  "query_lswitches ref_nvplib (nvp (world1 store1 backend0)) path
     (cluster_values (self (world1 store1 backend0))) [] = Inr []"
  by (simp add: ref_nvplib_def ref_of_cluster_def cluster_values_def world1_def plugin1_def
      backend0_def c1_def)

lemma no_id_filter: "filters_get (Some []) ''id'' = Inr []"
  by (simp add: filters_get_def)

lemma cross_reference_backend3:
  "cross_reference ref_quantum [net1] [sw_full, sw_a, sw_b] = Inr ([net1_active], [sw_a, sw_b])"
  by (simp add: ref_quantum_def net1_def net1_active_def sw_full_def sw_a_def sw_b_def
      subscript_def)

text \<open>
  On the reference store with network \<open>n1\<close>: with the switch of \<open>n1\<close> and two more
  switches on the backend, the call returns \<open>n1\<close> with the status and name of its
  switch, logs one warning with count 2, and leaves the backend as it was; with an empty
  backend it raises \<open>NvpOutOfSyncException\<close>.
\<close>

theorem get_networks_drift_witness:
  "get_networks_local ref_quantum ctx1 (Some []) (db (world1 store1 backend3)) = Inr [net1] \<and>
   fst (get_networks ref_quantum ref_nvplib ctx1 (Some []) None (world1 store1 backend3))
     = Inr [net1_active] \<and>
   LOG (snd (get_networks ref_quantum ref_nvplib ctx1 (Some []) None (world1 store1 backend3)))
     = [(WARNING, networks_drift_warning, [PInt 2]),
        (DEBUG, ''get_networks() completed for tenant %s'', [PStr ''t1''])] \<and>
   nvp (snd (get_networks ref_quantum ref_nvplib ctx1 (Some []) None (world1 store1 backend3)))
     = backend3 \<and>
   get_networks ref_quantum ref_nvplib ctx1 (Some []) None (world1 store1 backend0)
     = (Inl NvpOutOfSyncException, world1 store1 backend0)"
proof -
  have bad: "\<exists>ql\<in>set [net1]. \<forall>ls\<in>set ([] :: lswitch list).
               subscript ql ''id'' \<noteq> Inr (PStr (ls_uuid ls))" by simp
  have a: "get_networks ref_quantum ref_nvplib ctx1 (Some []) None (world1 store1 backend0)
     = (Inl NvpOutOfSyncException, world1 store1 backend0)"
    using get_networks_drift [OF get_networks_local_store1 net1_has_id tenant_filter_ctx1
        query_backend0 no_id_filter, of "[]" None] bad
    by simp
  have b: "fst (get_networks ref_quantum ref_nvplib ctx1 (Some []) None (world1 store1 backend3))
             = select_fields None [net1_active] \<and>
           db (snd (get_networks ref_quantum ref_nvplib ctx1 (Some []) None
                      (world1 store1 backend3))) = db (world1 store1 backend3) \<and>
           nvp (snd (get_networks ref_quantum ref_nvplib ctx1 (Some []) None
                      (world1 store1 backend3))) = nvp (world1 store1 backend3) \<and>
           LOG (snd (get_networks ref_quantum ref_nvplib ctx1 (Some []) None
                      (world1 store1 backend3))) =
             LOG (world1 store1 backend3) @
             (if [sw_a, sw_b] = [] then []
              else [(WARNING, networks_drift_warning, [PInt (int (length [sw_a, sw_b]))])]) @
             [(DEBUG, ''get_networks() completed for tenant %s'', [tenant_id ctx1])]"
    using get_networks_drift [OF get_networks_local_store1 net1_has_id tenant_filter_ctx1
        query_backend3 no_id_filter, of "[sw_full, sw_a, sw_b]" None]
      cross_reference_backend3
    by simp
  from a b get_networks_local_store1 [of backend3] show ?thesis
    by (simp add: select_fields_def world1_def ctx1_def)
qed

text \<open>
  The claim as stated fails on the reference store with network \<open>n1\<close> and an empty
  backend: the local record has no backend switch, and the call raises instead of
  returning the record as it is.
\<close>

theorem get_networks_unmatched_local_counterexample:
  "get_networks_local ref_quantum ctx1 (Some []) (db (world1 store1 backend0)) = Inr [net1] \<and>
   query_lswitches ref_nvplib (nvp (world1 store1 backend0))
     (lswitch_url_path ''&tag=t1&tag_scope=os_tid'')
     (cluster_values (self (world1 store1 backend0))) [] = Inr [] \<and>
   fst (get_networks ref_quantum ref_nvplib ctx1 (Some []) None (world1 store1 backend0))
     = Inl NvpOutOfSyncException"
  by (simp add: get_networks_def get_networks_local_store1 tenant_filter_ctx1 query_backend0
      no_id_filter)

subsection \<open>get\_ports twice\<close>

lemma project_ports_log:
  "(\<exists>e. project_ports q ps m lg = Inl e \<and> project_ports q ps m lg' = Inl e) \<or>
   (\<exists>lports rest l l'. project_ports q ps m lg = Inr (lports, rest, l) \<and>
                        project_ports q ps m lg' = Inr (lports, rest, l'))"
proof (induction ps arbitrary: m lg lg')
  case Nil
  then show ?case by simp
next
  case (Cons p ps)
  show ?case
  proof (cases "subscript p ''id''")
    case (Inl e)
    then show ?thesis by simp
  next
    case (Inr pid)
    show ?thesis
    proof (cases "map_of m pid")
      case None
      with Inr Cons.IH [of m
          "lg @ [(DEBUG, ''Quantum logical port %s was not found on NVP'', [pid])]"
          "lg' @ [(DEBUG, ''Quantum logical port %s was not found on NVP'', [pid])]"]
      show ?thesis by simp
    next
      case (Some lp)
      from Cons.IH [of "AList.delete pid m" lg lg'] Inr Some
      show ?thesis by auto
    qed
  qed
qed

lemma get_ports_keeps:
  "db (snd (get_ports q lib ctx filters flds w)) = db w \<and>
   nvp (snd (get_ports q lib ctx filters flds w)) = nvp w \<and>
   self (snd (get_ports q lib ctx filters flds w)) = self w"
  by (simp add: get_ports_def log_msg_def Let_def split: sum.splits prod.splits)

lemma get_ports_result:
  assumes "db v = db w" and "nvp v = nvp w" and "self v = self w"
  shows "fst (get_ports q lib ctx filters flds v) = fst (get_ports q lib ctx filters flds w)"
proof (cases "get_ports_local q ctx filters (db w)")
  case (Inl e)
  with assms show ?thesis by (simp add: get_ports_def)
next
  case loc: (Inr quantum_lports)
  show ?thesis
  proof (cases filters)
    case None
    with assms loc show ?thesis by (simp add: get_ports_def filters_get_def)
  next
    case (Some f)
    define n where "n = (case map_of f ''network_id'' of None \<Rightarrow> [] | Some vs \<Rightarrow> vs)"
    define d where "d = (case map_of f ''device_id'' of None \<Rightarrow> [] | Some vs \<Rightarrow> vs)"
    define t where "t = (case map_of f ''tenant_id'' of None \<Rightarrow> [] | Some vs \<Rightarrow> vs)"
    from Some have g: "filters_get filters ''network_id'' = Inr n"
      "filters_get filters ''device_id'' = Inr d" "filters_get filters ''tenant_id'' = Inr t"
      by (simp_all add: filters_get_def n_def d_def t_def split: option.splits)
    show ?thesis
    proof (cases "query_lports lib (nvp w) (lport_query_path q n d t) (cluster_values (self w)) []")
      case (Inl e)
      with assms loc g show ?thesis by (simp add: get_ports_def)
    next
      case qr: (Inr nvp_lports)
      from project_ports_log [of q quantum_lports nvp_lports "LOG v" "LOG w"]
      show ?thesis
      proof (elim disjE exE conjE)
        fix e
        assume "project_ports q quantum_lports nvp_lports (LOG v) = Inl e"
          "project_ports q quantum_lports nvp_lports (LOG w) = Inl e"
        with assms loc g qr show ?thesis by (simp add: get_ports_def)
      next
        fix lports rest l l'
        assume "project_ports q quantum_lports nvp_lports (LOG v) = Inr (lports, rest, l)"
          "project_ports q quantum_lports nvp_lports (LOG w) = Inr (lports, rest, l')"
        with assms loc g qr show ?thesis
          by (simp add: get_ports_def Let_def split: sum.splits)
      qed
    qed
  qed
qed

text \<open>
  C8. \<open>get_ports\<close> changes neither the local store nor the backend nor the plugin
  object, only the log, and its outcome does not depend on the log. So for every state
  and every filter, running it again right after a run gives the same outcome: the same
  records, or the same exception.
\<close>

theorem get_ports_idempotent:
  "fst (get_ports q lib ctx filters flds (snd (get_ports q lib ctx filters flds w)))
     = fst (get_ports q lib ctx filters flds w) \<and>
   db (snd (get_ports q lib ctx filters flds w)) = db w \<and>
   nvp (snd (get_ports q lib ctx filters flds w)) = nvp w"
  using get_ports_keeps [of q lib ctx filters flds w]
    get_ports_result [of "snd (get_ports q lib ctx filters flds w)" w q lib ctx filters flds]
  by simp

lemma get_ports_run:
  "get_ports ref_quantum ref_nvplib ctx1 (Some [(''network_id'', [''n1''])]) None
     (world1 store3 backend4) =
   (Inr [port_a_projected],
    (world1 store3 backend4)
      \<lparr>LOG := [(DEBUG, ''Quantum logical port %s was not found on NVP'', [PStr ''port-b'']),
               (WARNING, ports_drift_warning, [PInt 1])]\<rparr>)"
  by (simp add: get_ports_def get_ports_local_def filters_get_def select_fields_def
      ref_quantum_def ref_nvplib_def ref_of_cluster_def ref_matches_def cluster_values_def
      index_port_def log_msg_def Let_def
      world1_def plugin1_def store3_def backend4_def c1_def port_a_def port_b_def lp_a_def
      lp_z_def port_a_projected_def dict_get_def subscript_def)

text \<open>
  On a reference store with two ports of \<open>n1\<close> and a backend that knows one of them and
  a stray port, both runs return the one known port with the backend's name, admin state
  and status.
\<close>

theorem get_ports_idempotent_witness:
  "fst (get_ports ref_quantum ref_nvplib ctx1 (Some [(''network_id'', [''n1''])]) None
          (world1 store3 backend4)) = Inr [port_a_projected] \<and>
   fst (get_ports ref_quantum ref_nvplib ctx1 (Some [(''network_id'', [''n1''])]) None
          (snd (get_ports ref_quantum ref_nvplib ctx1 (Some [(''network_id'', [''n1''])]) None
                  (world1 store3 backend4)))) = Inr [port_a_projected]"
  using get_ports_idempotent [of ref_quantum ref_nvplib ctx1
      "Some [(''network_id'', [''n1''])]" None "world1 store3 backend4"]
  by (simp add: get_ports_run)

end
